theory Spec2Isabelle
  imports Main "HOL-Library.Word"
begin

unbundle bit_operations_syntax

section \<open>String formatting\<close>

text \<open>
  The source formats integers with Python's \<^verbatim>\<open>%\<close> operator:
  \<^verbatim>\<open>'%04d-%06d' % (id1, id2)\<close> and \<^verbatim>\<open>'%d.%02d' % (v >> 8, v & 0xff)\<close>.
  For a value that is not negative, \<^verbatim>\<open>%0Nd\<close> is the decimal numeral, padded on
  the left with the character 0 up to a width of at least N; a longer numeral is
  not cut. All the values formatted by the source are unsigned (a 32-bit unique id,
  16-bit version fields), so they are natural numbers here.
\<close>

definition digit_char :: "nat \<Rightarrow> char" where
  "digit_char d = ''0123456789'' ! d"

function dec :: "nat \<Rightarrow> string" where
  "dec n = (if n < 10 then [digit_char n] else dec (n div 10) @ [digit_char (n mod 10)])"
  by pat_completeness auto
termination
  by (relation "measure (\<lambda>n. n)") auto

declare dec.simps [simp del]

definition fmt_d :: "nat \<Rightarrow> nat \<Rightarrow> string" where
  "fmt_d width n = replicate (width - length (dec n)) (CHR ''0'') @ dec n"

text \<open>
  \<^verbatim>\<open>
  def _unique_id_str(unique_id):
      id1 = unique_id / 1000000
      id2 = unique_id % 1000000
      return '%04d-%06d' % (id1, id2)
  \<close>
  The division is the integer quotient. Under Python 2, for which the module was
  written, \<^verbatim>\<open>/\<close> on two integers is the floor division; under Python 3 it yields a
  float that \<^verbatim>\<open>%d\<close> truncates again, which for an id below \<open>2 ^ 32\<close> is the same
  number.
\<close>

definition unique_id_str :: "nat \<Rightarrow> string" where
  "unique_id_str unique_id =
     (let id1 = unique_id div 1000000;
          id2 = unique_id mod 1000000
      in fmt_d 4 id1 @ ''-'' @ fmt_d 6 id2)"

text \<open>
  \<^verbatim>\<open>
  def _to_version_str(v):
      return '%d.%02d' % (v >> 8, v & 0xff)
  \<close>
\<close>

definition to_version_str :: "nat \<Rightarrow> string" where
  "to_version_str v = dec (drop_bit 8 v) @ ''.'' @ fmt_d 2 (take_bit 8 v)"

text \<open>
  The specification's \<open>parseBack\<close>: the source has no parser for serial-number
  strings, so this one follows the specification's words. It reads the string
  \<open>NNNN-NNNNNN\<close> as two decimal numerals around a dash and recombines them as
  \<open>high * 1000000 + low\<close>; anything else is rejected.
\<close>

definition digit_val :: "char \<Rightarrow> nat option" where
  "digit_val c =
     (let k = (of_char c :: nat)
      in if 48 \<le> k \<and> k \<le> 57 then Some (k - 48) else None)"

fun parse_digits :: "nat \<Rightarrow> string \<Rightarrow> nat option" where
  "parse_digits acc [] = Some acc"
| "parse_digits acc (c # cs) =
     (case digit_val c of
        None \<Rightarrow> None
      | Some d \<Rightarrow> parse_digits (10 * acc + d) cs)"

definition parse_dec :: "string \<Rightarrow> nat option" where
  "parse_dec s = (if s = [] then None else parse_digits 0 s)"

definition parse_back :: "string \<Rightarrow> nat option" where
  "parse_back s =
     (let high = takeWhile (\<lambda>c. c \<noteq> CHR ''-'') s;
          rest = dropWhile (\<lambda>c. c \<noteq> CHR ''-'') s
      in case rest of
           [] \<Rightarrow> None
         | _ # low \<Rightarrow>
             (case (parse_dec high, parse_dec low) of
                (Some a, Some b) \<Rightarrow> Some (a * 1000000 + b)
              | _ \<Rightarrow> None))"

section \<open>Constants, errors and the transport\<close>

text \<open>
  The module \<^verbatim>\<open>pyaardvark.constants\<close> (\<^verbatim>\<open>from .constants import *\<close>) is not part
  of the sources at hand, so the constants the code names are a parameter of the
  model: a record with one field per constant. Theorems state what they need of the
  values (for instance that an error code is negative) as hypotheses.
\<close>

record constants =
  CONFIG_GPIO_ONLY :: int
  CONFIG_SPI_GPIO :: int
  CONFIG_GPIO_I2C :: int
  CONFIG_SPI_I2C :: int
  CONFIG_QUERY :: int
  GPIO_SCL :: int
  GPIO_SDA :: int
  GPIO_MISO :: int
  GPIO_SCK :: int
  GPIO_MOSI :: int
  GPIO_SS :: int
  PORT_NOT_FREE :: int
  ERR_UNABLE_TO_OPEN :: int
  ERR_INCOMPATIBLE_LIBRARY :: int
  ERR_INCOMPATIBLE_DEVICE :: int

text \<open>
  One instance of the constants, for evaluating the model on concrete inputs: the
  values of the vendor's programming interface.
\<close>

definition aardvark_constants :: constants where
  "aardvark_constants =
     \<lparr>CONFIG_GPIO_ONLY = 0, CONFIG_SPI_GPIO = 1, CONFIG_GPIO_I2C = 2,
      CONFIG_SPI_I2C = 3, CONFIG_QUERY = 128,
      GPIO_SCL = 1, GPIO_SDA = 2, GPIO_MISO = 4, GPIO_SCK = 8, GPIO_MOSI = 16,
      GPIO_SS = 32,
      PORT_NOT_FREE = 32768,
      ERR_UNABLE_TO_OPEN = - 7, ERR_INCOMPATIBLE_LIBRARY = - 4,
      ERR_INCOMPATIBLE_DEVICE = - 5\<rparr>"

text \<open>
  The exceptions the modelled code can raise. \<^verbatim>\<open>IOError(val, msg)\<close> carries the
  status code; its message is a lookup of the code in a table of strings and is left
  out. \<^verbatim>\<open>UnboundLocalError\<close> is Python's error for reading a local variable that
  was never assigned. \<^verbatim>\<open>TypeError\<close> is what a function of \<^verbatim>\<open>aardvark_py\<close> raises when
  it is handed \<^verbatim>\<open>None\<close> where it takes an integer handle.
\<close>

datatype error = IOError int | UnboundLocalError | TypeError

text \<open>
  \<^verbatim>\<open>
  def _raise_error_if_negative(val):
      if val < 0:
          raise IOError(val, api.aa_status_string(val))
  \<close>
\<close>

definition raise_error_if_negative :: "int \<Rightarrow> error + unit" where
  "raise_error_if_negative val = (if val < 0 then Inl (IOError val) else Inr ())"

text \<open>
  The version block that \<^verbatim>\<open>aa_open_ext\<close> returns next to the handle.
\<close>

record version =
  software :: nat
  firmware :: nat
  hardware :: nat
  sw_req_by_fw :: nat
  fw_req_by_sw :: nat
  api_req_by_sw :: nat

text \<open>
  The calls of the module \<^verbatim>\<open>aardvark_py\<close> (\<^verbatim>\<open>api\<close> in the source) that the modelled
  functions make, with their arguments. A handle is \<open>Some h\<close>, or \<open>None\<close> once
  \<^verbatim>\<open>close\<close> has set \<^verbatim>\<open>self.handle = None\<close>. \<open>AaFindDevicesExt n\<close> passes two
  arrays of \<open>n\<close> zeros.
\<close>

datatype call =
    AaFindDevices
  | AaFindDevicesExt nat
  | AaOpenExt int
  | AaClose "int option"
  | AaUniqueId "int option"
  | AaConfigure "int option" int
  | AaGpioDirection "int option" int
  | AaGpioPullup "int option" int
  | AaGpioSet "int option" int
  | AaGpioChange "int option" int
  | AaI2cSlaveSetResponse "int option" "8 word list"

text \<open>
  The adapter and its library are outside the program. They are modelled as an
  arbitrary environment: what a call returns is any function of the calls made before
  it and of the call itself. \<open>status\<close> is the integer a call returns,
  \<open>open_version\<close> the version block of \<^verbatim>\<open>aa_open_ext\<close>, \<open>unique\<close> the unsigned
  32-bit id of \<^verbatim>\<open>aa_unique_id\<close>, and \<open>found\<close> the two arrays (ports, unique ids)
  that \<^verbatim>\<open>aa_find_devices_ext\<close> hands back. Every function of the model takes the
  list of calls made so far and returns it extended by the calls it made, in order,
  also when it raises.
\<close>

record transport =
  status :: "call list \<Rightarrow> call \<Rightarrow> int"
  open_version :: "call list \<Rightarrow> int \<Rightarrow> version"
  unique :: "call list \<Rightarrow> int option \<Rightarrow> nat"
  found :: "call list \<Rightarrow> nat \<Rightarrow> int list \<times> nat list"

section \<open>The class Aardvark\<close>

text \<open>
  The attributes of an \<^verbatim>\<open>Aardvark\<close> object; \<open>self_x\<close> stands for \<^verbatim>\<open>self.x\<close> and
  for \<^verbatim>\<open>self._x\<close>.
\<close>

record aardvark =
  self_handle :: "int option"
  self_hardware_revision :: string
  self_firmware_version :: string
  self_api_version :: string
  self_i2c_slave_response :: "8 word list option"
  self_configured_gpio_outputs :: "int list"
  self_high_gpio_outputs :: "int list"
  self_enabled_gpio_pullups :: "int list"

text \<open>
  \<^verbatim>\<open>
  def _interface_configuration(self, value):
      ret = api.aa_configure(self.handle, value)
      _raise_error_if_negative(ret)
      return ret
  \<close>
  The method reads \<^verbatim>\<open>self.handle\<close> only, so the model takes the handle.
\<close>

definition interface_configuration ::
  "transport \<Rightarrow> int option \<Rightarrow> int \<Rightarrow> call list \<Rightarrow> (error + int) \<times> call list" where
  "interface_configuration env h v tr =
     (let ret = status env tr (AaConfigure h v)
      in case raise_error_if_negative ret of
           Inl e \<Rightarrow> (Inl e, tr @ [AaConfigure h v])
         | Inr _ \<Rightarrow> (Inr ret, tr @ [AaConfigure h v]))"

text \<open>
  \<^verbatim>\<open>
  def __init__(self, port=0):
      ret, ver = api.aa_open_ext(port)
      _raise_error_if_negative(ret)
      self.handle = ret
      ...
      if version['firmware'] < version['fw_req_by_sw']:
          ret = ERR_INCOMPATIBLE_DEVICE
      elif version['software'] < version['sw_req_by_fw']:
          ret = ERR_INCOMPATIBLE_LIBRARY
      _raise_error_if_negative(ret)
      self._interface_configuration(CONFIG_SPI_I2C)
      self._i2c_slave_response = None
      self._configured_gpio_outputs = []
      self._high_gpio_outputs = []
      self._enabled_gpio_pullups = []
  \<close>
  When the constructor raises, the caller gets no object; the list of calls shows what
  was done to the transport until then.
\<close>

definition Aardvark_init ::
  "constants \<Rightarrow> transport \<Rightarrow> int \<Rightarrow> call list \<Rightarrow> (error + aardvark) \<times> call list" where
  "Aardvark_init K env port tr =
     (let ret = status env tr (AaOpenExt port);
          ver = open_version env tr port;
          tr1 = tr @ [AaOpenExt port]
      in case raise_error_if_negative ret of
           Inl e \<Rightarrow> (Inl e, tr1)
         | Inr _ \<Rightarrow>
             (let handle = ret;
                  ret2 = (if firmware ver < fw_req_by_sw ver then ERR_INCOMPATIBLE_DEVICE K
                          else if software ver < sw_req_by_fw ver then ERR_INCOMPATIBLE_LIBRARY K
                          else ret)
              in case raise_error_if_negative ret2 of
                   Inl e \<Rightarrow> (Inl e, tr1)
                 | Inr _ \<Rightarrow>
                     (case interface_configuration env (Some handle) (CONFIG_SPI_I2C K) tr1 of
                        (Inl e, tr2) \<Rightarrow> (Inl e, tr2)
                      | (Inr _, tr2) \<Rightarrow>
                          (Inr \<lparr>self_handle = Some handle,
                                self_hardware_revision = to_version_str (hardware ver),
                                self_firmware_version = to_version_str (firmware ver),
                                self_api_version = to_version_str (software ver),
                                self_i2c_slave_response = None,
                                self_configured_gpio_outputs = [],
                                self_high_gpio_outputs = [],
                                self_enabled_gpio_pullups = []\<rparr>, tr2))))"

text \<open>
  \<^verbatim>\<open>
  def close(self):
      api.aa_close(self.handle)
      self.handle = None
  \<close>
\<close>

text \<open>
  The source ignores what \<^verbatim>\<open>aa_close\<close> returns. \<^verbatim>\<open>aa_close\<close> takes an integer handle:
  handed \<^verbatim>\<open>None\<close>, as on a session that is closed already, it raises \<^verbatim>\<open>TypeError\<close>,
  and the assignment after it is not reached.
\<close>

definition close :: "aardvark \<Rightarrow> call list \<Rightarrow> (error + unit) \<times> aardvark \<times> call list" where
  "close s tr =
     (case self_handle s of
        None \<Rightarrow> (Inl TypeError, s, tr @ [AaClose None])
      | Some h \<Rightarrow> (Inr (), s\<lparr>self_handle := None\<rparr>, tr @ [AaClose (Some h)]))"

text \<open>
  \<^verbatim>\<open>
  def unique_id(self):
      return api.aa_unique_id(self.handle)

  def unique_id_str(self):
      return _unique_id_str(self.unique_id())
  \<close>
\<close>

definition unique_id :: "transport \<Rightarrow> aardvark \<Rightarrow> call list \<Rightarrow> nat \<times> call list" where
  "unique_id env s tr = (unique env tr (self_handle s), tr @ [AaUniqueId (self_handle s)])"

definition Aardvark_unique_id_str ::
  "transport \<Rightarrow> aardvark \<Rightarrow> call list \<Rightarrow> string \<times> call list" where
  "Aardvark_unique_id_str env s tr =
     (case unique_id env s tr of (uid, tr1) \<Rightarrow> (unique_id_str uid, tr1))"

subsection \<open>Interface configuration: enable_i2c and enable_spi\<close>

text \<open>
  \<^verbatim>\<open>
  @property
  def enable_i2c(self):
      config = self._interface_configuration(CONFIG_QUERY)
      return config == CONFIG_GPIO_I2C or config == CONFIG_SPI_I2C

  @property
  def enable_spi(self):
      config = self._interface_configuration(CONFIG_QUERY)
      return config == CONFIG_SPI_GPIO or config == CONFIG_SPI_I2C
  \<close>
  \<open>i2c_enabled\<close> and \<open>spi_enabled\<close> are the two expressions the getters return: the
  I2C facet and the SPI facet of a configuration value.
\<close>

definition i2c_enabled :: "constants \<Rightarrow> int \<Rightarrow> bool" where
  "i2c_enabled K config = (config = CONFIG_GPIO_I2C K \<or> config = CONFIG_SPI_I2C K)"

definition spi_enabled :: "constants \<Rightarrow> int \<Rightarrow> bool" where
  "spi_enabled K config = (config = CONFIG_SPI_GPIO K \<or> config = CONFIG_SPI_I2C K)"

definition enable_i2c_get ::
  "constants \<Rightarrow> transport \<Rightarrow> aardvark \<Rightarrow> call list \<Rightarrow> (error + bool) \<times> call list" where
  "enable_i2c_get K env s tr =
     (case interface_configuration env (self_handle s) (CONFIG_QUERY K) tr of
        (Inl e, tr1) \<Rightarrow> (Inl e, tr1)
      | (Inr config, tr1) \<Rightarrow> (Inr (i2c_enabled K config), tr1))"

definition enable_spi_get ::
  "constants \<Rightarrow> transport \<Rightarrow> aardvark \<Rightarrow> call list \<Rightarrow> (error + bool) \<times> call list" where
  "enable_spi_get K env s tr =
     (case interface_configuration env (self_handle s) (CONFIG_QUERY K) tr of
        (Inl e, tr1) \<Rightarrow> (Inl e, tr1)
      | (Inr config, tr1) \<Rightarrow> (Inr (spi_enabled K config), tr1))"

text \<open>
  \<^verbatim>\<open>
  @enable_i2c.setter
  def enable_i2c(self, value):
      new_config = config = self._interface_configuration(CONFIG_QUERY)
      if value and config == CONFIG_GPIO_ONLY:
          new_config = CONFIG_GPIO_I2C
      elif value and config == CONFIG_SPI_GPIO:
          new_config = CONFIG_SPI_I2C
      elif not value and config == CONFIG_GPIO_I2C:
          new_config = CONFIG_GPIO_ONLY
      elif not value and config == CONFIG_SPI_I2C:
          new_config = CONFIG_SPI_GPIO
      if new_config != config:
          self._interface_configuration(new_config)
  \<close>
  \<open>i2c_new_config\<close> is the chain of tests that computes \<^verbatim>\<open>new_config\<close>.
\<close>

definition i2c_new_config :: "constants \<Rightarrow> bool \<Rightarrow> int \<Rightarrow> int" where
  "i2c_new_config K v config =
     (if v \<and> config = CONFIG_GPIO_ONLY K then CONFIG_GPIO_I2C K
      else if v \<and> config = CONFIG_SPI_GPIO K then CONFIG_SPI_I2C K
      else if \<not> v \<and> config = CONFIG_GPIO_I2C K then CONFIG_GPIO_ONLY K
      else if \<not> v \<and> config = CONFIG_SPI_I2C K then CONFIG_SPI_GPIO K
      else config)"

definition enable_i2c_set ::
  "constants \<Rightarrow> transport \<Rightarrow> aardvark \<Rightarrow> bool \<Rightarrow> call list \<Rightarrow> (error + unit) \<times> call list" where
  "enable_i2c_set K env s v tr =
     (case interface_configuration env (self_handle s) (CONFIG_QUERY K) tr of
        (Inl e, tr1) \<Rightarrow> (Inl e, tr1)
      | (Inr config, tr1) \<Rightarrow>
          (let new_config = i2c_new_config K v config
           in if new_config \<noteq> config
              then (case interface_configuration env (self_handle s) new_config tr1 of
                      (Inl e, tr2) \<Rightarrow> (Inl e, tr2)
                    | (Inr _, tr2) \<Rightarrow> (Inr (), tr2))
              else (Inr (), tr1)))"

text \<open>
  \<^verbatim>\<open>
  @enable_spi.setter
  def enable_spi(self, value):
      new_config = config = self._interface_configuration(CONFIG_QUERY)
      if value and config == CONFIG_GPIO_ONLY:
          new_config = CONFIG_SPI_GPIO
      elif value and config == CONFIG_GPIO_I2C:
          new_config = CONFIG_SPI_I2C
      elif not value and config == CONFIG_SPI_GPIO:
          new_config = CONFIG_GPIO_ONLY
      elif not value and config == CONFIG_SPI_I2C:
          new_config = CONFIG_GPIO_I2C
      if new_config != config:
          self._interface_configuration(new_config)
  \<close>
\<close>

definition spi_new_config :: "constants \<Rightarrow> bool \<Rightarrow> int \<Rightarrow> int" where
  "spi_new_config K v config =
     (if v \<and> config = CONFIG_GPIO_ONLY K then CONFIG_SPI_GPIO K
      else if v \<and> config = CONFIG_GPIO_I2C K then CONFIG_SPI_I2C K
      else if \<not> v \<and> config = CONFIG_SPI_GPIO K then CONFIG_GPIO_ONLY K
      else if \<not> v \<and> config = CONFIG_SPI_I2C K then CONFIG_GPIO_I2C K
      else config)"

definition enable_spi_set ::
  "constants \<Rightarrow> transport \<Rightarrow> aardvark \<Rightarrow> bool \<Rightarrow> call list \<Rightarrow> (error + unit) \<times> call list" where
  "enable_spi_set K env s v tr =
     (case interface_configuration env (self_handle s) (CONFIG_QUERY K) tr of
        (Inl e, tr1) \<Rightarrow> (Inl e, tr1)
      | (Inr config, tr1) \<Rightarrow>
          (let new_config = spi_new_config K v config
           in if new_config \<noteq> config
              then (case interface_configuration env (self_handle s) new_config tr1 of
                      (Inl e, tr2) \<Rightarrow> (Inl e, tr2)
                    | (Inr _, tr2) \<Rightarrow> (Inr (), tr2))
              else (Inr (), tr1)))"

subsection \<open>The I2C slave response\<close>

text \<open>
  \<^verbatim>\<open>
  @i2c_slave_response.setter
  def i2c_slave_response(self, data):
      data = array.array('B', data)
      ret = api.aa_i2c_slave_set_response(self.handle, data)
      _raise_error_if_negative(ret)
      self._i2c_slave_response = data
  \<close>
  The argument is a sequence of bytes.
\<close>

definition i2c_slave_response_set ::
  "transport \<Rightarrow> aardvark \<Rightarrow> 8 word list \<Rightarrow> call list
     \<Rightarrow> (error + unit) \<times> aardvark \<times> call list" where
  "i2c_slave_response_set env s data tr =
     (let ret = status env tr (AaI2cSlaveSetResponse (self_handle s) data);
          tr1 = tr @ [AaI2cSlaveSetResponse (self_handle s) data]
      in case raise_error_if_negative ret of
           Inl e \<Rightarrow> (Inl e, s, tr1)
         | Inr _ \<Rightarrow> (Inr (), s\<lparr>self_i2c_slave_response := Some data\<rparr>, tr1))"

subsection \<open>GPIO\<close>

text \<open>
  \<^verbatim>\<open>
  @configured_gpio_outputs.setter
  def configured_gpio_outputs(self, used_outputs):
      bitmask = sum(used_outputs)
      if bitmask == sum(self._configured_gpio_outputs):
          return
      ret = api.aa_gpio_direction(self.handle, bitmask)
      _raise_error_if_negative(ret)
      self._configured_gpio_outputs = used_outputs
  \<close>
\<close>

definition configured_gpio_outputs_set ::
  "transport \<Rightarrow> aardvark \<Rightarrow> int list \<Rightarrow> call list
     \<Rightarrow> (error + unit) \<times> aardvark \<times> call list" where
  "configured_gpio_outputs_set env s used_outputs tr =
     (let bitmask = sum_list used_outputs
      in if bitmask = sum_list (self_configured_gpio_outputs s) then (Inr (), s, tr)
         else (let ret = status env tr (AaGpioDirection (self_handle s) bitmask);
                   tr1 = tr @ [AaGpioDirection (self_handle s) bitmask]
               in case raise_error_if_negative ret of
                    Inl e \<Rightarrow> (Inl e, s, tr1)
                  | Inr _ \<Rightarrow>
                      (Inr (), s\<lparr>self_configured_gpio_outputs := used_outputs\<rparr>, tr1)))"

text \<open>
  \<^verbatim>\<open>
  @enabled_gpio_pullups.setter
  def enabled_gpio_pullups(self, enabled_pullups):
      bitmask = sum(enabled_pullups)
      if bitmask == sum(self._enabled_gpio_pullups):
          return
      ret = api.aa_gpio_pullup(self.handle, bitmask)
      _raise_error_if_negative(ret)
      self._enabled_gpio_pullups = enabled_pullups
  \<close>
\<close>

definition enabled_gpio_pullups_set ::
  "transport \<Rightarrow> aardvark \<Rightarrow> int list \<Rightarrow> call list
     \<Rightarrow> (error + unit) \<times> aardvark \<times> call list" where
  "enabled_gpio_pullups_set env s enabled_pullups tr =
     (let bitmask = sum_list enabled_pullups
      in if bitmask = sum_list (self_enabled_gpio_pullups s) then (Inr (), s, tr)
         else (let ret = status env tr (AaGpioPullup (self_handle s) bitmask);
                   tr1 = tr @ [AaGpioPullup (self_handle s) bitmask]
               in case raise_error_if_negative ret of
                    Inl e \<Rightarrow> (Inl e, s, tr1)
                  | Inr _ \<Rightarrow>
                      (Inr (), s\<lparr>self_enabled_gpio_pullups := enabled_pullups\<rparr>, tr1)))"

text \<open>
  \<^verbatim>\<open>
  def gpio_clear(self, output):
      if not output in self._high_gpio_outputs:
          return
      new_list = list(self._high_gpio_outputs)
      new_list.remove(output)
      mask = sum(new_list)
      ret = api.aa_gpio_set(self.handle, mask)
      _raise_error_if_negative(ret)
      self._high_gpio_outputs = new_list
  \<close>
  \<^verbatim>\<open>list.remove\<close> deletes the first occurrence, as \<open>remove1\<close> does.
\<close>

definition gpio_clear ::
  "transport \<Rightarrow> aardvark \<Rightarrow> int \<Rightarrow> call list \<Rightarrow> (error + unit) \<times> aardvark \<times> call list" where
  "gpio_clear env s output tr =
     (if output \<notin> set (self_high_gpio_outputs s) then (Inr (), s, tr)
      else (let new_list = remove1 output (self_high_gpio_outputs s);
                mask = sum_list new_list;
                ret = status env tr (AaGpioSet (self_handle s) mask);
                tr1 = tr @ [AaGpioSet (self_handle s) mask]
            in case raise_error_if_negative ret of
                 Inl e \<Rightarrow> (Inl e, s, tr1)
               | Inr _ \<Rightarrow> (Inr (), s\<lparr>self_high_gpio_outputs := new_list\<rparr>, tr1)))"

text \<open>
  \<^verbatim>\<open>
  def gpio_set(self, output):
      if output in self._high_gpio_outputs:
          return
      new_list = list(self._high_gpio_outputs)
      new_list.append(output)
      mask = sum(new_list)
      ret = api.aa_gpio_set(self.handle, mask)
      _raise_error_if_negative(ret)
      self._high_gpio_outputs = new_list
  \<close>
\<close>

definition gpio_set ::
  "transport \<Rightarrow> aardvark \<Rightarrow> int \<Rightarrow> call list \<Rightarrow> (error + unit) \<times> aardvark \<times> call list" where
  "gpio_set env s output tr =
     (if output \<in> set (self_high_gpio_outputs s) then (Inr (), s, tr)
      else (let new_list = self_high_gpio_outputs s @ [output];
                mask = sum_list new_list;
                ret = status env tr (AaGpioSet (self_handle s) mask);
                tr1 = tr @ [AaGpioSet (self_handle s) mask]
            in case raise_error_if_negative ret of
                 Inl e \<Rightarrow> (Inl e, s, tr1)
               | Inr _ \<Rightarrow> (Inr (), s\<lparr>self_high_gpio_outputs := new_list\<rparr>, tr1)))"

text \<open>
  \<^verbatim>\<open>
  def gpio_toggle(self, output):
      if output in self._high_gpio_outputs:
          self.gpio_clear(output)
      else:
          self.gpio_set(output)
  \<close>
\<close>

definition gpio_toggle ::
  "transport \<Rightarrow> aardvark \<Rightarrow> int \<Rightarrow> call list \<Rightarrow> (error + unit) \<times> aardvark \<times> call list" where
  "gpio_toggle env s output tr =
     (if output \<in> set (self_high_gpio_outputs s) then gpio_clear env s output tr
      else gpio_set env s output tr)"

text \<open>
  \<^verbatim>\<open>
  def gpio_poll(self, timeout):
      bitmask = api.aa_gpio_change(self.handle, timeout)
      _raise_error_if_negative(bitmask)
      gpios = [GPIO_MISO, GPIO_MOSI, GPIO_SCK, GPIO_SCL, GPIO_SDA, GPIO_SS]
      return [pin for pin in gpios if bitmask & pin != 0x00]
  \<close>
  In Python \<^verbatim>\<open>&\<close> binds tighter than \<^verbatim>\<open>!=\<close>.
\<close>

definition gpios :: "constants \<Rightarrow> int list" where
  "gpios K = [GPIO_MISO K, GPIO_MOSI K, GPIO_SCK K, GPIO_SCL K, GPIO_SDA K, GPIO_SS K]"

definition gpio_poll ::
  "constants \<Rightarrow> transport \<Rightarrow> aardvark \<Rightarrow> int \<Rightarrow> call list \<Rightarrow> (error + int list) \<times> call list" where
  "gpio_poll K env s timeout tr =
     (let bitmask = status env tr (AaGpioChange (self_handle s) timeout);
          tr1 = tr @ [AaGpioChange (self_handle s) timeout]
      in case raise_error_if_negative bitmask of
           Inl e \<Rightarrow> (Inl e, tr1)
         | Inr _ \<Rightarrow> (Inr (filter (\<lambda>pin. bitmask AND pin \<noteq> 0) (gpios K)), tr1))"

text \<open>
  \<^verbatim>\<open>
  def gpio_get(self, output):
      if output in self._configured_gpio_outputs:
          return output in self._high_gpio_outputs
      # Not an ouptut pin => poll inputs
      return output in self.gpio_poll(32)
  \<close>
\<close>

definition gpio_get ::
  "constants \<Rightarrow> transport \<Rightarrow> aardvark \<Rightarrow> int \<Rightarrow> call list \<Rightarrow> (error + bool) \<times> call list" where
  "gpio_get K env s output tr =
     (if output \<in> set (self_configured_gpio_outputs s)
      then (Inr (output \<in> set (self_high_gpio_outputs s)), tr)
      else (case gpio_poll K env s 32 tr of
              (Inl e, tr1) \<Rightarrow> (Inl e, tr1)
            | (Inr high, tr1) \<Rightarrow> (Inr (output \<in> set high), tr1)))"

section \<open>Finding and opening devices\<close>

text \<open>
  One entry of the list that \<^verbatim>\<open>find_devices\<close> returns: a dictionary with the keys
  \<^verbatim>\<open>port\<close>, \<^verbatim>\<open>serial_number\<close> and \<^verbatim>\<open>in_use\<close>.
\<close>

record device =
  port :: int
  serial_number :: string
  in_use :: bool

text \<open>
  \<^verbatim>\<open>
  def find_devices():
      num_devices = api.aa_find_devices(array.array('H'))[0]
      _raise_error_if_negative(num_devices)
      if num_devices == 0:
          return list()
      ports = array.array('H', (0,) * num_devices)
      unique_ids = array.array('I', (0,) * num_devices)
      (num_devices, ports, unique_ids) = api.aa_find_devices_ext(ports, unique_ids)
      _raise_error_if_negative(num_devices)
      if num_devices == 0:
          return list()
      del ports[num_devices:]
      del unique_ids[num_devices:]
      devices = list()
      for port, uid in zip(ports, unique_ids):
          in_use = bool(port & PORT_NOT_FREE)
          dev = dict(
                  port=port & ~PORT_NOT_FREE,
                  serial_number=_unique_id_str(uid),
                  in_use=in_use)
          devices.append(dev)
      return devices
  \<close>
\<close>

definition find_devices ::
  "constants \<Rightarrow> transport \<Rightarrow> call list \<Rightarrow> (error + device list) \<times> call list" where
  "find_devices K env tr =
     (let num_devices = status env tr AaFindDevices;
          tr1 = tr @ [AaFindDevices]
      in case raise_error_if_negative num_devices of
           Inl e \<Rightarrow> (Inl e, tr1)
         | Inr _ \<Rightarrow>
             if num_devices = 0 then (Inr [], tr1)
             else (let n = nat num_devices;
                       num_devices2 = status env tr1 (AaFindDevicesExt n);
                       ports = fst (found env tr1 n);
                       unique_ids = snd (found env tr1 n);
                       tr2 = tr1 @ [AaFindDevicesExt n]
                   in case raise_error_if_negative num_devices2 of
                        Inl e \<Rightarrow> (Inl e, tr2)
                      | Inr _ \<Rightarrow>
                          if num_devices2 = 0 then (Inr [], tr2)
                          else (Inr (map (\<lambda>(p, uid).
                                       \<lparr>port = p AND NOT (PORT_NOT_FREE K),
                                        serial_number = unique_id_str uid,
                                        in_use = (p AND PORT_NOT_FREE K \<noteq> 0)\<rparr>)
                                     (zip (take (nat num_devices2) ports)
                                          (take (nat num_devices2) unique_ids))), tr2)))"

text \<open>
  \<^verbatim>\<open>
  def open(port=None, serial_number=None):
      if port is None and serial_number is None:
          dev = Aardvark()
      elif serial_number is not None:
          for d in find_devices():
              if d['serial_number'] == serial_number:
                  break
          else:
              _raise_error_if_negative(ERR_UNABLE_TO_OPEN)

          dev = Aardvark(d['port'])

          # make sure we opened the correct device
          if dev.unique_id_str() != serial_number:
              dev.close()
              _raise_error_if_negative(ERR_UNABLE_TO_OPEN)
      else:
          dev = Aardvark(port)
      return dev
  \<close>
  The \<^verbatim>\<open>for\<close> loop leaves \<^verbatim>\<open>d\<close> at the first entry with the serial number. When
  there is none, the \<^verbatim>\<open>else\<close> branch runs; should it not raise, \<^verbatim>\<open>d\<close> is the last
  entry, or unbound when the list is empty. \<open>open_serial_number\<close> is the branch
  taken when a serial number is given.
\<close>

definition open_serial_number ::
  "constants \<Rightarrow> transport \<Rightarrow> string \<Rightarrow> call list \<Rightarrow> (error + aardvark) \<times> call list" where
  "open_serial_number K env sn tr =
     (case find_devices K env tr of
        (Inl e, tr1) \<Rightarrow> (Inl e, tr1)
      | (Inr ds, tr1) \<Rightarrow>
          (case (case find (\<lambda>d. serial_number d = sn) ds of
                   Some d \<Rightarrow> Inr d
                 | None \<Rightarrow>
                     (case raise_error_if_negative (ERR_UNABLE_TO_OPEN K) of
                        Inl e \<Rightarrow> Inl e
                      | Inr _ \<Rightarrow> if ds = [] then Inl UnboundLocalError else Inr (last ds))) of
             Inl e \<Rightarrow> (Inl e, tr1)
           | Inr d \<Rightarrow>
               (case Aardvark_init K env (port d) tr1 of
                  (Inl e, tr2) \<Rightarrow> (Inl e, tr2)
                | (Inr dev, tr2) \<Rightarrow>
                    (case Aardvark_unique_id_str env dev tr2 of
                       (uid_str, tr3) \<Rightarrow>
                         if uid_str \<noteq> sn
                         then (case close dev tr3 of
                                 (Inl e, dev2, tr4) \<Rightarrow> (Inl e, tr4)
                               | (Inr _, dev2, tr4) \<Rightarrow>
                                   (case raise_error_if_negative (ERR_UNABLE_TO_OPEN K) of
                                      Inl e \<Rightarrow> (Inl e, tr4)
                                    | Inr _ \<Rightarrow> (Inr dev2, tr4)))
                         else (Inr dev, tr3)))))"

definition open_dev ::
  "constants \<Rightarrow> transport \<Rightarrow> int option \<Rightarrow> string option \<Rightarrow> call list
     \<Rightarrow> (error + aardvark) \<times> call list" where
  "open_dev K env port_arg serial_number_arg tr =
     (case (port_arg, serial_number_arg) of
        (None, None) \<Rightarrow> Aardvark_init K env 0 tr
      | (_, Some sn) \<Rightarrow> open_serial_number K env sn tr
      | (Some p, None) \<Rightarrow> Aardvark_init K env p tr)"

section \<open>Notions used to state the properties\<close>

text \<open>
  The bitmask-union of a list of pin masks, and the lists that stand for a set of pins:
  masks that share no bit pairwise (so no mask occurs twice, unless it is 0).
\<close>

definition pin_union :: "int list \<Rightarrow> int" where
  "pin_union pins = foldr (\<lambda>p m. p OR m) pins 0"

fun disjoint_bits :: "int list \<Rightarrow> bool" where
  "disjoint_bits [] = True"
| "disjoint_bits (p # ps) = (list_all (\<lambda>q. p AND q = 0) ps \<and> disjoint_bits ps)"

text \<open>
  Two statements in a row: the second runs only if the first did not raise.
\<close>

definition configured_gpio_outputs_set_twice ::
  "transport \<Rightarrow> aardvark \<Rightarrow> int list \<Rightarrow> call list
     \<Rightarrow> (error + unit) \<times> aardvark \<times> call list" where
  "configured_gpio_outputs_set_twice env s pins tr =
     (case configured_gpio_outputs_set env s pins tr of
        (Inl e, s1, tr1) \<Rightarrow> (Inl e, s1, tr1)
      | (Inr _, s1, tr1) \<Rightarrow> configured_gpio_outputs_set env s1 pins tr1)"

definition enabled_gpio_pullups_set_twice ::
  "transport \<Rightarrow> aardvark \<Rightarrow> int list \<Rightarrow> call list
     \<Rightarrow> (error + unit) \<times> aardvark \<times> call list" where
  "enabled_gpio_pullups_set_twice env s pins tr =
     (case enabled_gpio_pullups_set env s pins tr of
        (Inl e, s1, tr1) \<Rightarrow> (Inl e, s1, tr1)
      | (Inr _, s1, tr1) \<Rightarrow> enabled_gpio_pullups_set env s1 pins tr1)"

definition enable_i2c_set_twice ::
  "constants \<Rightarrow> transport \<Rightarrow> aardvark \<Rightarrow> bool \<Rightarrow> call list \<Rightarrow> (error + unit) \<times> call list" where
  "enable_i2c_set_twice K env s v tr =
     (case enable_i2c_set K env s v tr of
        (Inl e, tr1) \<Rightarrow> (Inl e, tr1)
      | (Inr _, tr1) \<Rightarrow> enable_i2c_set K env s v tr1)"

text \<open>
  The configuration-change calls of a list of calls: the calls of \<^verbatim>\<open>aa_configure\<close>
  whose mode is not the query sentinel.
\<close>

definition is_config_change :: "constants \<Rightarrow> call \<Rightarrow> bool" where
  "is_config_change K c =
     (case c of AaConfigure h v \<Rightarrow> v \<noteq> CONFIG_QUERY K | _ \<Rightarrow> False)"

definition config_changes :: "constants \<Rightarrow> call list \<Rightarrow> call list" where
  "config_changes K tr = filter (is_config_change K) tr"

definition is_configure :: "call \<Rightarrow> bool" where
  "is_configure c = (case c of AaConfigure h v \<Rightarrow> True | _ \<Rightarrow> False)"

definition is_open :: "call \<Rightarrow> bool" where
  "is_open c = (case c of AaOpenExt p \<Rightarrow> True | _ \<Rightarrow> False)"

definition is_close :: "call \<Rightarrow> bool" where
  "is_close c = (case c of AaClose h \<Rightarrow> True | _ \<Rightarrow> False)"

text \<open>
  What the properties need of the configuration constants: the four configurations
  and the query sentinel are five different values, and no configuration is negative
  (a negative value returned by \<^verbatim>\<open>aa_configure\<close> is an error).
\<close>

definition config_constants_ok :: "constants \<Rightarrow> bool" where
  "config_constants_ok K =
     (distinct [CONFIG_GPIO_ONLY K, CONFIG_SPI_GPIO K, CONFIG_GPIO_I2C K,
                CONFIG_SPI_I2C K, CONFIG_QUERY K]
      \<and> 0 \<le> CONFIG_GPIO_ONLY K \<and> 0 \<le> CONFIG_SPI_GPIO K
      \<and> 0 \<le> CONFIG_GPIO_I2C K \<and> 0 \<le> CONFIG_SPI_I2C K)"

definition configs :: "constants \<Rightarrow> int list" where
  "configs K = [CONFIG_GPIO_ONLY K, CONFIG_SPI_GPIO K, CONFIG_GPIO_I2C K, CONFIG_SPI_I2C K]"

text \<open>
  A sequence of drive calls on one session. \<open>DriveHigh\<close> is \<^verbatim>\<open>gpio_set\<close>,
  \<open>DriveLow\<close> is \<^verbatim>\<open>gpio_clear\<close>, \<open>Toggle\<close> is \<^verbatim>\<open>gpio_toggle\<close>. The caller goes on
  after a call that raised; \<open>drive_all\<close> records with each call whether it returned
  (\<open>True\<close>) or raised (\<open>False\<close>).
\<close>

datatype drive = DriveHigh int | DriveLow int | Toggle int

definition drive_call ::
  "transport \<Rightarrow> aardvark \<Rightarrow> drive \<Rightarrow> call list \<Rightarrow> (error + unit) \<times> aardvark \<times> call list" where
  "drive_call env s d tr =
     (case d of
        DriveHigh p \<Rightarrow> gpio_set env s p tr
      | DriveLow p \<Rightarrow> gpio_clear env s p tr
      | Toggle p \<Rightarrow> gpio_toggle env s p tr)"

fun drive_all ::
  "transport \<Rightarrow> drive list \<Rightarrow> aardvark \<Rightarrow> call list
     \<Rightarrow> (drive \<times> bool) list \<times> aardvark \<times> call list" where
  "drive_all env [] s tr = ([], s, tr)"
| "drive_all env (d # ds) s tr =
     (case drive_call env s d tr of
        (r, s1, tr1) \<Rightarrow>
          (case drive_all env ds s1 tr1 of
             (hist, s2, tr2) \<Rightarrow> ((d, isl r = False) # hist, s2, tr2)))"

text \<open>
  The level that the last successful drive call on pin \<open>p\<close> asked for, \<open>lvl\<close> when
  there was none: a successful \<open>DriveHigh p\<close> asks for high, a successful
  \<open>DriveLow p\<close> for low, a successful \<open>Toggle p\<close> for the opposite of the level
  before it. Calls on other pins and calls that raised do not count.
\<close>

fun drive_level :: "int \<Rightarrow> bool \<Rightarrow> drive \<times> bool \<Rightarrow> bool" where
  "drive_level p lvl (DriveHigh q, ok) = (if ok \<and> q = p then True else lvl)"
| "drive_level p lvl (DriveLow q, ok) = (if ok \<and> q = p then False else lvl)"
| "drive_level p lvl (Toggle q, ok) = (if ok \<and> q = p then \<not> lvl else lvl)"

fun last_driven :: "int \<Rightarrow> bool \<Rightarrow> (drive \<times> bool) list \<Rightarrow> bool" where
  "last_driven p lvl [] = lvl"
| "last_driven p lvl (x # hist) = last_driven p (drive_level p lvl x) hist"

text \<open>
  The invariant of the specification on the shadow GPIO state.
\<close>

definition high_subset_configured :: "aardvark \<Rightarrow> bool" where
  "high_subset_configured s =
     (set (self_high_gpio_outputs s) \<subseteq> set (self_configured_gpio_outputs s))"

section \<open>Transports for examples\<close>

text \<open>
  Concrete environments on which the model is evaluated. \<open>quiet_transport\<close> answers
  every call with 0, a version block of zeros, the unique id 0 and empty arrays.
  \<open>failing_transport\<close> opens port 0 with handle 1 and answers every other call with
  the status -1.
\<close>

definition zero_version :: version where
  "zero_version =
     \<lparr>software = 0, firmware = 0, hardware = 0,
      sw_req_by_fw = 0, fw_req_by_sw = 0, api_req_by_sw = 0\<rparr>"

definition quiet_transport :: transport where
  "quiet_transport =
     \<lparr>status = (\<lambda>tr c. 0),
      open_version = (\<lambda>tr p. zero_version),
      unique = (\<lambda>tr h. 0),
      found = (\<lambda>tr n. ([], []))\<rparr>"

definition failing_transport :: transport where
  "failing_transport =
     \<lparr>status = (\<lambda>tr c. case c of AaOpenExt p \<Rightarrow> 1 | _ \<Rightarrow> - 1),
      open_version = (\<lambda>tr p. zero_version),
      unique = (\<lambda>tr h. 0),
      found = (\<lambda>tr n. ([], []))\<rparr>"

text \<open>
  \<open>sda_high_transport\<close> answers \<^verbatim>\<open>aa_gpio_change\<close> with the bitmask 2 (the pin SDA
  is high, with the masks of \<open>aardvark_constants\<close>) and every other call with 0.
\<close>

definition sda_high_transport :: transport where
  "sda_high_transport =
     \<lparr>status = (\<lambda>tr c. case c of AaGpioChange h t \<Rightarrow> 2 | _ \<Rightarrow> 0),
      open_version = (\<lambda>tr p. zero_version),
      unique = (\<lambda>tr h. 0),
      found = (\<lambda>tr n. ([], []))\<rparr>"

text \<open>
  \<open>register_transport K c0\<close> is an adapter that keeps its configuration in a
  register: a configure call with a mode other than the query sentinel stores the mode
  and returns it, a query returns the register, which holds \<open>c0\<close> before the first
  change. Every other call returns 0; opening returns the handle 1.
\<close>

fun register_value :: "constants \<Rightarrow> int \<Rightarrow> call list \<Rightarrow> int" where
  "register_value K c0 [] = c0"
| "register_value K c0 (AaConfigure h v # tr) =
     register_value K (if v = CONFIG_QUERY K then c0 else v) tr"
| "register_value K c0 (c # tr) = register_value K c0 tr"

definition register_transport :: "constants \<Rightarrow> int \<Rightarrow> transport" where
  "register_transport K c0 =
     \<lparr>status = (\<lambda>tr c. case c of
                   AaConfigure h v \<Rightarrow> if v = CONFIG_QUERY K then register_value K c0 tr else v
                 | AaOpenExt p \<Rightarrow> 1
                 | _ \<Rightarrow> 0),
      open_version = (\<lambda>tr p. zero_version),
      unique = (\<lambda>tr h. 0),
      found = (\<lambda>tr n. ([], []))\<rparr>"

text \<open>
  \<open>outdated_version\<close> is a version block whose firmware (1.00) is older than the one
  the library asks for (2.00). \<open>old_firmware_transport\<close> opens every port with handle
  1 and reports that block.
\<close>

definition outdated_version :: version where
  "outdated_version =
     \<lparr>software = 0x500, firmware = 0x100, hardware = 0x300,
      sw_req_by_fw = 0x500, fw_req_by_sw = 0x200, api_req_by_sw = 0x500\<rparr>"

definition old_firmware_transport :: transport where
  "old_firmware_transport =
     \<lparr>status = (\<lambda>tr c. case c of AaOpenExt p \<Rightarrow> 1 | _ \<Rightarrow> 0),
      open_version = (\<lambda>tr p. outdated_version),
      unique = (\<lambda>tr h. 0),
      found = (\<lambda>tr n. ([], []))\<rparr>"

text \<open>
  \<open>two_device_transport\<close> enumerates two adapters: port 42 with the unique id
  1234567890 and port 4711 with the unique id 1111222222. A port opens with the port
  number as its handle. \<open>swapped\<close> says what \<^verbatim>\<open>aa_unique_id\<close> reports: when it is
  false each handle reports its own id; when it is true the adapters have changed
  places since the enumeration and each handle reports the other id.
\<close>

definition two_device_transport :: "bool \<Rightarrow> transport" where
  "two_device_transport swapped =
     \<lparr>status = (\<lambda>tr c. case c of
                   AaFindDevices \<Rightarrow> 2
                 | AaFindDevicesExt n \<Rightarrow> 2
                 | AaOpenExt p \<Rightarrow> p
                 | _ \<Rightarrow> 0),
      open_version = (\<lambda>tr p. zero_version),
      unique = (\<lambda>tr h. if (h = Some 42) = swapped then 1111222222 else 1234567890),
      found = (\<lambda>tr n. ([42, 4711], [1234567890, 1111222222]))\<rparr>"

text \<open>
  The session that \<^verbatim>\<open>open()\<close> returns on \<open>quiet_transport\<close>, and the same session
  after \<^verbatim>\<open>close()\<close>.
\<close>

definition fresh_session :: aardvark where
  "fresh_session =
     \<lparr>self_handle = Some 0,
      self_hardware_revision = ''0.00'',
      self_firmware_version = ''0.00'',
      self_api_version = ''0.00'',
      self_i2c_slave_response = None,
      self_configured_gpio_outputs = [],
      self_high_gpio_outputs = [],
      self_enabled_gpio_pullups = []\<rparr>"

definition closed_session :: aardvark where
  "closed_session = fresh_session\<lparr>self_handle := None\<rparr>"

section \<open>Auxiliary lemmas on the decimal format\<close>

lemma digit_cases: "d < 10 \<Longrightarrow> d \<in> {0, 1, 2, 3, 4, 5, 6, 7, 8, 9 :: nat}"
  by auto

lemma digit_val_digit_char: "d < 10 \<Longrightarrow> digit_val (digit_char d) = Some d"
  by (drule digit_cases) (auto simp: digit_val_def digit_char_def)

lemma digit_char_not_dash: "d < 10 \<Longrightarrow> digit_char d \<noteq> CHR ''-''"
  by (drule digit_cases) (auto simp: digit_char_def)

lemma parse_digits_append:
  "parse_digits acc (xs @ ys) =
     (case parse_digits acc xs of None \<Rightarrow> None | Some a \<Rightarrow> parse_digits a ys)"
  by (induction xs arbitrary: acc) (auto split: option.splits)

lemma parse_digits_dec: "parse_digits acc (dec n) = Some (acc * 10 ^ length (dec n) + n)"
proof (induction n arbitrary: acc rule: dec.induct)
  case (1 n)
  show ?case
  proof (cases "n < 10")
    case True
    then show ?thesis
      by (subst (1 2) dec.simps) (simp add: digit_val_digit_char)
  next
    case False
    have IH: "parse_digits acc (dec (n div 10)) =
        Some (acc * 10 ^ length (dec (n div 10)) + n div 10)"
      using 1 False by simp
    show ?thesis
      using False
      by (subst (1 2) dec.simps)
         (simp add: parse_digits_append IH digit_val_digit_char algebra_simps)
  qed
qed

lemma parse_digits_zeros: "parse_digits 0 (replicate k (CHR ''0'') @ s) = parse_digits 0 s"
  by (induction k) (auto simp: digit_val_def)

lemma dec_nonempty: "dec n \<noteq> []"
  by (subst dec.simps) simp

lemma parse_dec_fmt_d: "parse_dec (fmt_d w n) = Some n"
  using parse_digits_dec [of 0 n]
  by (simp add: parse_dec_def fmt_d_def parse_digits_zeros dec_nonempty)

lemma dec_no_dash: "CHR ''-'' \<notin> set (dec n)"
proof (induction n rule: dec.induct)
  case (1 n)
  show ?case
  proof (cases "n < 10")
    case True
    then show ?thesis
      using digit_char_not_dash [of n] by (subst dec.simps) auto
  next
    case False
    then show ?thesis
      using 1 digit_char_not_dash [of "n mod 10"] by (subst dec.simps) auto
  qed
qed

lemma fmt_d_no_dash: "CHR ''-'' \<notin> set (fmt_d w n)"
  using dec_no_dash [of n] by (auto simp: fmt_d_def)

lemma parse_back_join:
  assumes "CHR ''-'' \<notin> set a"
  shows "parse_back (a @ ''-'' @ b) =
     (case (parse_dec a, parse_dec b) of
        (Some x, Some y) \<Rightarrow> Some (x * 1000000 + y)
      | _ \<Rightarrow> None)"
proof -
  have nd: "\<And>x. x \<in> set a \<Longrightarrow> x \<noteq> CHR ''-''"
    using assms by blast
  have "takeWhile (\<lambda>c. c \<noteq> CHR ''-'') (a @ (CHR ''-'' # b)) =
      a @ takeWhile (\<lambda>c. c \<noteq> CHR ''-'') (CHR ''-'' # b)"
    using nd by (rule takeWhile_append2)
  then have t: "takeWhile (\<lambda>c. c \<noteq> CHR ''-'') (a @ ''-'' @ b) = a"
    by simp
  have "dropWhile (\<lambda>c. c \<noteq> CHR ''-'') (a @ (CHR ''-'' # b)) =
      dropWhile (\<lambda>c. c \<noteq> CHR ''-'') (CHR ''-'' # b)"
    using nd by (rule dropWhile_append2)
  then have d: "dropWhile (\<lambda>c. c \<noteq> CHR ''-'') (a @ ''-'' @ b) = ''-'' @ b"
    by simp
  show ?thesis
    unfolding parse_back_def Let_def t d by simp
qed

lemma parse_back_unique_id_str: "parse_back (unique_id_str n) = Some n"
proof -
  have "parse_back (fmt_d 4 (n div 1000000) @ ''-'' @ fmt_d 6 (n mod 1000000)) =
      Some (n div 1000000 * 1000000 + n mod 1000000)"
    by (subst parse_back_join) (simp_all only: fmt_d_no_dash parse_dec_fmt_d not_False_eq_True
        prod.case option.case)
  then show ?thesis
    unfolding unique_id_str_def Let_def by simp
qed

lemma length_dec_le: "n < 10 ^ k \<Longrightarrow> 0 < k \<Longrightarrow> length (dec n) \<le> k"
proof (induction n arbitrary: k rule: dec.induct)
  case (1 n)
  show ?case
  proof (cases "n < 10")
    case True
    then show ?thesis
      using 1(3) by (subst dec.simps) simp
  next
    case False
    then obtain j where k: "k = Suc j"
      using 1(3) by (cases k) auto
    have "0 < j"
      using False 1(2) k by (cases j) auto
    moreover have "n div 10 < 10 ^ j"
      using 1(2) k by (simp add: less_mult_imp_div_less)
    ultimately have "length (dec (n div 10)) \<le> j"
      using 1(1) False by simp
    then show ?thesis
      using False k by (subst dec.simps) simp
  qed
qed

lemma length_fmt_d: "n < 10 ^ k \<Longrightarrow> 0 < k \<Longrightarrow> length (fmt_d k n) = k"
  using length_dec_le [of n k] by (simp add: fmt_d_def)

lemma replicate_numeral: "replicate (numeral k) x = x # replicate (pred_numeral k) x"
  by (simp add: numeral_eq_Suc)

lemma unique_id_str_example: "unique_id_str 1234567890 = ''1234-567890''"
proof -
  have q: "(1234567890::nat) div 1000000 = 1234"
    and r: "(1234567890::nat) mod 1000000 = 567890"
    by simp_all
  have a: "fmt_d 4 1234 = ''1234''"
    by (simp add: fmt_d_def dec.simps digit_char_def)
  have b: "fmt_d 6 567890 = ''567890''"
    by (simp add: fmt_d_def dec.simps digit_char_def)
  show ?thesis
    unfolding unique_id_str_def Let_def q r a b by simp
qed

lemma unique_id_str_test: "unique_id_str 627008473 = ''0627-008473''"
proof -
  have q: "(627008473::nat) div 1000000 = 627"
    and r: "(627008473::nat) mod 1000000 = 8473"
    by simp_all
  have a: "fmt_d 4 627 = ''0627''"
    by (simp add: fmt_d_def dec.simps digit_char_def)
  have b: "fmt_d 6 8473 = ''008473''"
    by (simp add: fmt_d_def dec.simps digit_char_def replicate_numeral)
  show ?thesis
    unfolding unique_id_str_def Let_def q r a b by simp
qed

section \<open>Serial numbers\<close>

text \<open>
  C9. For every unsigned 32-bit id, the serial-number string is the quotient of the id
  by 1000000 in exactly four digits, a dash, and the remainder in exactly six digits,
  both padded with zeros; reading the string back as \<open>high * 1000000 + low\<close> gives
  the id again. The id 1234567890 is formatted as \<open>1234-567890\<close>.
\<close>

theorem C9_serial_number_round_trip:
  assumes "uid < 2 ^ 32"
  shows "parse_back (unique_id_str uid) = Some uid
    \<and> unique_id_str uid = fmt_d 4 (uid div 1000000) @ ''-'' @ fmt_d 6 (uid mod 1000000)
    \<and> length (fmt_d 4 (uid div 1000000)) = 4
    \<and> length (fmt_d 6 (uid mod 1000000)) = 6
    \<and> unique_id_str 1234567890 = ''1234-567890''"
proof -
  have "uid div 1000000 < 10 ^ 4"
    using assms by simp
  then have l4: "length (fmt_d 4 (uid div 1000000)) = 4"
    by (rule length_fmt_d) simp
  have "uid mod 1000000 < 10 ^ 6"
    by simp
  then have l6: "length (fmt_d 6 (uid mod 1000000)) = 6"
    by (rule length_fmt_d) simp
  have sh: "unique_id_str uid = fmt_d 4 (uid div 1000000) @ ''-'' @ fmt_d 6 (uid mod 1000000)"
    unfolding unique_id_str_def Let_def by (rule refl)
  show ?thesis
    using l4 l6 sh parse_back_unique_id_str [of uid] unique_id_str_example by blast
qed

theorem C9_serial_number_round_trip_witness:
  "(627008473 :: nat) < 2 ^ 32
    \<and> unique_id_str 627008473 = ''0627-008473''
    \<and> parse_back ''0627-008473'' = Some 627008473"
proof -
  have lt: "(627008473 :: nat) < 2 ^ 32"
    by simp
  show ?thesis
    using lt C9_serial_number_round_trip [OF lt] unique_id_str_test by metis
qed

section \<open>Version gate at open time\<close>

text \<open>
  C10. When \<^verbatim>\<open>aa_open_ext\<close> has returned a handle and the version gate fails (the
  firmware is older than the library requires, or the library is older than the
  firmware requires), the constructor raises the error of the gate, and all it has
  done to the transport is the open call: no close call is made for the handle, which
  stays open. The same holds for \<^verbatim>\<open>open(port)\<close>.
\<close>

theorem C10_version_gate_leaves_handle_open:
  assumes "0 \<le> status env tr (AaOpenExt p)"
    and "firmware (open_version env tr p) < fw_req_by_sw (open_version env tr p)
         \<or> software (open_version env tr p) < sw_req_by_fw (open_version env tr p)"
    and "ERR_INCOMPATIBLE_DEVICE K < 0"
    and "ERR_INCOMPATIBLE_LIBRARY K < 0"
  shows "Aardvark_init K env p tr =
      (Inl (IOError (if firmware (open_version env tr p) < fw_req_by_sw (open_version env tr p)
                     then ERR_INCOMPATIBLE_DEVICE K else ERR_INCOMPATIBLE_LIBRARY K)),
       tr @ [AaOpenExt p])
    \<and> open_dev K env (Some p) None tr = Aardvark_init K env p tr
    \<and> filter is_close (snd (Aardvark_init K env p tr)) = filter is_close tr"
proof -
  have i: "Aardvark_init K env p tr =
      (Inl (IOError (if firmware (open_version env tr p) < fw_req_by_sw (open_version env tr p)
                     then ERR_INCOMPATIBLE_DEVICE K else ERR_INCOMPATIBLE_LIBRARY K)),
       tr @ [AaOpenExt p])"
    using assms by (auto simp: Aardvark_init_def raise_error_if_negative_def Let_def)
  have o: "open_dev K env (Some p) None tr = Aardvark_init K env p tr"
    by (simp add: open_dev_def)
  have c: "filter is_close (snd (Aardvark_init K env p tr)) = filter is_close tr"
    unfolding i by (simp add: is_close_def)
  show ?thesis
    using i o c by blast
qed

theorem C10_version_gate_leaves_handle_open_witness:
  "Aardvark_init aardvark_constants old_firmware_transport 0 [] =
     (Inl (IOError (- 5)), [AaOpenExt 0])"
proof -
  have a: "0 \<le> status old_firmware_transport [] (AaOpenExt 0)"
    by (simp add: old_firmware_transport_def)
  have b: "firmware (open_version old_firmware_transport [] 0)
         < fw_req_by_sw (open_version old_firmware_transport [] 0)
      \<or> software (open_version old_firmware_transport [] 0)
         < sw_req_by_fw (open_version old_firmware_transport [] 0)"
    by (simp add: old_firmware_transport_def outdated_version_def)
  have c: "ERR_INCOMPATIBLE_DEVICE aardvark_constants < 0"
    by (simp add: aardvark_constants_def)
  have d: "ERR_INCOMPATIBLE_LIBRARY aardvark_constants < 0"
    by (simp add: aardvark_constants_def)
  show ?thesis
    using C10_version_gate_leaves_handle_open [OF a b c d]
    by (simp add: old_firmware_transport_def outdated_version_def aardvark_constants_def)
qed

section \<open>Failed writes and the shadow state\<close>

text \<open>
  C4. Each write to the shadow state makes its transport call first and stores the
  new value only after the call has returned a status that is not negative. When the
  status is negative the method raises \<^verbatim>\<open>IOError\<close> with that status and the object
  is as it was before the call. This holds for the setters of
  \<^verbatim>\<open>configured_gpio_outputs\<close> and \<^verbatim>\<open>enabled_gpio_pullups\<close>, for \<^verbatim>\<open>gpio_set\<close>,
  \<^verbatim>\<open>gpio_clear\<close> and for the setter of \<^verbatim>\<open>i2c_slave_response\<close>. The hypotheses of
  the first four say that the call is made at all (the method does not return early).
\<close>

theorem C4_failed_write_keeps_cache:
  "(sum_list pins \<noteq> sum_list (self_configured_gpio_outputs s) \<longrightarrow>
      configured_gpio_outputs_set env s pins tr =
        (if status env tr (AaGpioDirection (self_handle s) (sum_list pins)) < 0
         then (Inl (IOError (status env tr (AaGpioDirection (self_handle s) (sum_list pins)))),
               s, tr @ [AaGpioDirection (self_handle s) (sum_list pins)])
         else (Inr (), s\<lparr>self_configured_gpio_outputs := pins\<rparr>,
               tr @ [AaGpioDirection (self_handle s) (sum_list pins)])))
   \<and> (sum_list pins \<noteq> sum_list (self_enabled_gpio_pullups s) \<longrightarrow>
      enabled_gpio_pullups_set env s pins tr =
        (if status env tr (AaGpioPullup (self_handle s) (sum_list pins)) < 0
         then (Inl (IOError (status env tr (AaGpioPullup (self_handle s) (sum_list pins)))),
               s, tr @ [AaGpioPullup (self_handle s) (sum_list pins)])
         else (Inr (), s\<lparr>self_enabled_gpio_pullups := pins\<rparr>,
               tr @ [AaGpioPullup (self_handle s) (sum_list pins)])))
   \<and> (pin \<notin> set (self_high_gpio_outputs s) \<longrightarrow>
      gpio_set env s pin tr =
        (if status env tr
              (AaGpioSet (self_handle s) (sum_list (self_high_gpio_outputs s @ [pin]))) < 0
         then (Inl (IOError (status env tr
                 (AaGpioSet (self_handle s) (sum_list (self_high_gpio_outputs s @ [pin]))))),
               s, tr @ [AaGpioSet (self_handle s) (sum_list (self_high_gpio_outputs s @ [pin]))])
         else (Inr (), s\<lparr>self_high_gpio_outputs := self_high_gpio_outputs s @ [pin]\<rparr>,
               tr @ [AaGpioSet (self_handle s) (sum_list (self_high_gpio_outputs s @ [pin]))])))
   \<and> (pin \<in> set (self_high_gpio_outputs s) \<longrightarrow>
      gpio_clear env s pin tr =
        (if status env tr
              (AaGpioSet (self_handle s) (sum_list (remove1 pin (self_high_gpio_outputs s)))) < 0
         then (Inl (IOError (status env tr
                 (AaGpioSet (self_handle s) (sum_list (remove1 pin (self_high_gpio_outputs s)))))),
               s,
               tr @ [AaGpioSet (self_handle s) (sum_list (remove1 pin (self_high_gpio_outputs s)))])
         else (Inr (), s\<lparr>self_high_gpio_outputs := remove1 pin (self_high_gpio_outputs s)\<rparr>,
               tr @ [AaGpioSet (self_handle s) (sum_list (remove1 pin (self_high_gpio_outputs s)))])))
   \<and> i2c_slave_response_set env s data tr =
        (if status env tr (AaI2cSlaveSetResponse (self_handle s) data) < 0
         then (Inl (IOError (status env tr (AaI2cSlaveSetResponse (self_handle s) data))),
               s, tr @ [AaI2cSlaveSetResponse (self_handle s) data])
         else (Inr (), s\<lparr>self_i2c_slave_response := Some data\<rparr>,
               tr @ [AaI2cSlaveSetResponse (self_handle s) data]))"
proof (intro conjI impI)
  assume "sum_list pins \<noteq> sum_list (self_configured_gpio_outputs s)"
  then show "configured_gpio_outputs_set env s pins tr =
        (if status env tr (AaGpioDirection (self_handle s) (sum_list pins)) < 0
         then (Inl (IOError (status env tr (AaGpioDirection (self_handle s) (sum_list pins)))),
               s, tr @ [AaGpioDirection (self_handle s) (sum_list pins)])
         else (Inr (), s\<lparr>self_configured_gpio_outputs := pins\<rparr>,
               tr @ [AaGpioDirection (self_handle s) (sum_list pins)]))"
    by (simp add: configured_gpio_outputs_set_def raise_error_if_negative_def Let_def)
next
  assume "sum_list pins \<noteq> sum_list (self_enabled_gpio_pullups s)"
  then show "enabled_gpio_pullups_set env s pins tr =
        (if status env tr (AaGpioPullup (self_handle s) (sum_list pins)) < 0
         then (Inl (IOError (status env tr (AaGpioPullup (self_handle s) (sum_list pins)))),
               s, tr @ [AaGpioPullup (self_handle s) (sum_list pins)])
         else (Inr (), s\<lparr>self_enabled_gpio_pullups := pins\<rparr>,
               tr @ [AaGpioPullup (self_handle s) (sum_list pins)]))"
    by (simp add: enabled_gpio_pullups_set_def raise_error_if_negative_def Let_def)
next
  assume "pin \<notin> set (self_high_gpio_outputs s)"
  then show "gpio_set env s pin tr =
        (if status env tr
              (AaGpioSet (self_handle s) (sum_list (self_high_gpio_outputs s @ [pin]))) < 0
         then (Inl (IOError (status env tr
                 (AaGpioSet (self_handle s) (sum_list (self_high_gpio_outputs s @ [pin]))))),
               s, tr @ [AaGpioSet (self_handle s) (sum_list (self_high_gpio_outputs s @ [pin]))])
         else (Inr (), s\<lparr>self_high_gpio_outputs := self_high_gpio_outputs s @ [pin]\<rparr>,
               tr @ [AaGpioSet (self_handle s) (sum_list (self_high_gpio_outputs s @ [pin]))]))"
    by (simp add: gpio_set_def raise_error_if_negative_def Let_def)
next
  assume "pin \<in> set (self_high_gpio_outputs s)"
  then show "gpio_clear env s pin tr =
        (if status env tr
              (AaGpioSet (self_handle s) (sum_list (remove1 pin (self_high_gpio_outputs s)))) < 0
         then (Inl (IOError (status env tr
                 (AaGpioSet (self_handle s) (sum_list (remove1 pin (self_high_gpio_outputs s)))))),
               s,
               tr @ [AaGpioSet (self_handle s) (sum_list (remove1 pin (self_high_gpio_outputs s)))])
         else (Inr (), s\<lparr>self_high_gpio_outputs := remove1 pin (self_high_gpio_outputs s)\<rparr>,
               tr @ [AaGpioSet (self_handle s) (sum_list (remove1 pin (self_high_gpio_outputs s)))]))"
    by (simp add: gpio_clear_def raise_error_if_negative_def Let_def)
next
  show "i2c_slave_response_set env s data tr =
        (if status env tr (AaI2cSlaveSetResponse (self_handle s) data) < 0
         then (Inl (IOError (status env tr (AaI2cSlaveSetResponse (self_handle s) data))),
               s, tr @ [AaI2cSlaveSetResponse (self_handle s) data])
         else (Inr (), s\<lparr>self_i2c_slave_response := Some data\<rparr>,
               tr @ [AaI2cSlaveSetResponse (self_handle s) data]))"
    by (simp add: i2c_slave_response_set_def raise_error_if_negative_def Let_def)
qed

theorem C4_failed_write_keeps_cache_witness:
  "configured_gpio_outputs_set failing_transport fresh_session [2, 1] [] =
     (Inl (IOError (- 1)), fresh_session, [AaGpioDirection (Some 0) 3])
   \<and> enabled_gpio_pullups_set failing_transport fresh_session [2, 1] [] =
     (Inl (IOError (- 1)), fresh_session, [AaGpioPullup (Some 0) 3])
   \<and> gpio_set failing_transport fresh_session 2 [] =
     (Inl (IOError (- 1)), fresh_session, [AaGpioSet (Some 0) 2])
   \<and> gpio_clear failing_transport (fresh_session\<lparr>self_high_gpio_outputs := [32, 2]\<rparr>) 2 [] =
     (Inl (IOError (- 1)), fresh_session\<lparr>self_high_gpio_outputs := [32, 2]\<rparr>,
      [AaGpioSet (Some 0) 32])
   \<and> i2c_slave_response_set failing_transport fresh_session [1, 2, 3] [] =
     (Inl (IOError (- 1)), fresh_session, [AaI2cSlaveSetResponse (Some 0) [1, 2, 3]])"
  using C4_failed_write_keeps_cache
      [of "[2, 1]" fresh_session failing_transport "[]" 2 "[1, 2, 3]"]
    C4_failed_write_keeps_cache
      [of "[]" "fresh_session\<lparr>self_high_gpio_outputs := [32, 2]\<rparr>" failing_transport "[]" 2 "[]"]
  by (simp add: fresh_session_def failing_transport_def)

section \<open>Writes that change nothing\<close>

lemma and_pin_union: "list_all (\<lambda>q. p AND q = 0) ps \<Longrightarrow> p AND pin_union ps = 0"
  by (induction ps) (auto simp: pin_union_def bit.conj_disj_distrib)

lemma sum_list_pin_union: "disjoint_bits ps \<Longrightarrow> sum_list ps = pin_union ps"
proof (induction ps)
  case Nil
  then show ?case
    by (simp add: pin_union_def)
next
  case (Cons p ps)
  then have "p AND pin_union ps = 0"
    by (simp add: and_pin_union)
  then have "p + pin_union ps = p OR pin_union ps"
    by (rule disjunctive_add_eq_or)
  then show ?case
    using Cons by (simp add: pin_union_def)
qed

text \<open>
  C3. The two setters compare the sum of the masks they are given with the sum of the
  cached masks, and return at once, without a transport call and without a change,
  when the sums agree. For lists that stand for sets of pins (masks without a common
  bit) the sum is the bitmask-union, so the setters return at once when the unions
  agree. Two calls in a row with the same list: whatever the first call does, if it
  returns then the second makes no transport call and changes nothing.
\<close>

theorem C3_unchanged_set_makes_no_call:
  "(sum_list pins = sum_list (self_configured_gpio_outputs s) \<longrightarrow>
      configured_gpio_outputs_set env s pins tr = (Inr (), s, tr))
   \<and> (sum_list pins = sum_list (self_enabled_gpio_pullups s) \<longrightarrow>
      enabled_gpio_pullups_set env s pins tr = (Inr (), s, tr))
   \<and> (disjoint_bits pins \<and> disjoint_bits (self_configured_gpio_outputs s)
        \<and> pin_union pins = pin_union (self_configured_gpio_outputs s) \<longrightarrow>
      configured_gpio_outputs_set env s pins tr = (Inr (), s, tr))
   \<and> (disjoint_bits pins \<and> disjoint_bits (self_enabled_gpio_pullups s)
        \<and> pin_union pins = pin_union (self_enabled_gpio_pullups s) \<longrightarrow>
      enabled_gpio_pullups_set env s pins tr = (Inr (), s, tr))
   \<and> (\<forall>s1 tr1. configured_gpio_outputs_set env s pins tr = (Inr (), s1, tr1) \<longrightarrow>
        configured_gpio_outputs_set env s1 pins tr1 = (Inr (), s1, tr1)
        \<and> configured_gpio_outputs_set_twice env s pins tr = (Inr (), s1, tr1))
   \<and> (\<forall>s1 tr1. enabled_gpio_pullups_set env s pins tr = (Inr (), s1, tr1) \<longrightarrow>
        enabled_gpio_pullups_set env s1 pins tr1 = (Inr (), s1, tr1)
        \<and> enabled_gpio_pullups_set_twice env s pins tr = (Inr (), s1, tr1))"
proof (intro conjI impI allI)
  assume "sum_list pins = sum_list (self_configured_gpio_outputs s)"
  then show "configured_gpio_outputs_set env s pins tr = (Inr (), s, tr)"
    by (simp add: configured_gpio_outputs_set_def)
next
  assume "sum_list pins = sum_list (self_enabled_gpio_pullups s)"
  then show "enabled_gpio_pullups_set env s pins tr = (Inr (), s, tr)"
    by (simp add: enabled_gpio_pullups_set_def)
next
  assume "disjoint_bits pins \<and> disjoint_bits (self_configured_gpio_outputs s)
        \<and> pin_union pins = pin_union (self_configured_gpio_outputs s)"
  then have "sum_list pins = sum_list (self_configured_gpio_outputs s)"
    by (simp add: sum_list_pin_union)
  then show "configured_gpio_outputs_set env s pins tr = (Inr (), s, tr)"
    by (simp add: configured_gpio_outputs_set_def)
next
  assume "disjoint_bits pins \<and> disjoint_bits (self_enabled_gpio_pullups s)
        \<and> pin_union pins = pin_union (self_enabled_gpio_pullups s)"
  then have "sum_list pins = sum_list (self_enabled_gpio_pullups s)"
    by (simp add: sum_list_pin_union)
  then show "enabled_gpio_pullups_set env s pins tr = (Inr (), s, tr)"
    by (simp add: enabled_gpio_pullups_set_def)
next
  fix s1 tr1
  assume a: "configured_gpio_outputs_set env s pins tr = (Inr (), s1, tr1)"
  then have "sum_list pins = sum_list (self_configured_gpio_outputs s1)"
    by (auto simp: configured_gpio_outputs_set_def raise_error_if_negative_def Let_def
        split: if_splits)
  then show b: "configured_gpio_outputs_set env s1 pins tr1 = (Inr (), s1, tr1)"
    by (simp add: configured_gpio_outputs_set_def)
  show "configured_gpio_outputs_set_twice env s pins tr = (Inr (), s1, tr1)"
    by (simp add: configured_gpio_outputs_set_twice_def a b)
next
  fix s1 tr1
  assume a: "enabled_gpio_pullups_set env s pins tr = (Inr (), s1, tr1)"
  then have "sum_list pins = sum_list (self_enabled_gpio_pullups s1)"
    by (auto simp: enabled_gpio_pullups_set_def raise_error_if_negative_def Let_def
        split: if_splits)
  then show b: "enabled_gpio_pullups_set env s1 pins tr1 = (Inr (), s1, tr1)"
    by (simp add: enabled_gpio_pullups_set_def)
  show "enabled_gpio_pullups_set_twice env s pins tr = (Inr (), s1, tr1)"
    by (simp add: enabled_gpio_pullups_set_twice_def a b)
qed

theorem C3_unchanged_set_makes_no_call_witness:
  "configured_gpio_outputs_set quiet_transport fresh_session [8, 1] [] =
     (Inr (), fresh_session\<lparr>self_configured_gpio_outputs := [8, 1]\<rparr>,
      [AaGpioDirection (Some 0) 9])
   \<and> configured_gpio_outputs_set quiet_transport
       (fresh_session\<lparr>self_configured_gpio_outputs := [8, 1]\<rparr>) [8, 1]
       [AaGpioDirection (Some 0) 9] =
     (Inr (), fresh_session\<lparr>self_configured_gpio_outputs := [8, 1]\<rparr>,
      [AaGpioDirection (Some 0) 9])
   \<and> configured_gpio_outputs_set_twice quiet_transport fresh_session [8, 1] [] =
     (Inr (), fresh_session\<lparr>self_configured_gpio_outputs := [8, 1]\<rparr>,
      [AaGpioDirection (Some 0) 9])
   \<and> disjoint_bits [1, 8] \<and> pin_union [1, 8] = pin_union [8, 1]
   \<and> configured_gpio_outputs_set quiet_transport
       (fresh_session\<lparr>self_configured_gpio_outputs := [8, 1]\<rparr>) [1, 8] [] =
     (Inr (), fresh_session\<lparr>self_configured_gpio_outputs := [8, 1]\<rparr>, [])
   \<and> enabled_gpio_pullups_set quiet_transport fresh_session [] [] =
     (Inr (), fresh_session, [])"
proof -
  have first: "configured_gpio_outputs_set quiet_transport fresh_session [8, 1] [] =
     (Inr (), fresh_session\<lparr>self_configured_gpio_outputs := [8, 1]\<rparr>,
      [AaGpioDirection (Some 0) 9])"
    by (simp add: configured_gpio_outputs_set_def raise_error_if_negative_def Let_def
        quiet_transport_def fresh_session_def)
  have d: "disjoint_bits [1, 8] \<and> disjoint_bits [8, 1] \<and> pin_union [1, 8] = pin_union [8, 1]"
    by (simp add: pin_union_def)
  show ?thesis
    using first d
      C3_unchanged_set_makes_no_call [of "[8, 1]" fresh_session quiet_transport "[]"]
      C3_unchanged_set_makes_no_call
        [of "[1, 8]" "fresh_session\<lparr>self_configured_gpio_outputs := [8, 1]\<rparr>"
            quiet_transport "[]"]
      C3_unchanged_set_makes_no_call [of "[]" fresh_session quiet_transport "[]"]
    by (simp add: fresh_session_def)
qed

section \<open>Reading a GPIO pin\<close>

lemma drive_call_step:
  assumes "distinct (self_high_gpio_outputs s)"
    and "drive_call env s d tr = (r, s1, tr1)"
  shows "distinct (self_high_gpio_outputs s1)
    \<and> self_configured_gpio_outputs s1 = self_configured_gpio_outputs s
    \<and> (p \<in> set (self_high_gpio_outputs s1)) =
        drive_level p (p \<in> set (self_high_gpio_outputs s)) (d, isl r = False)"
proof (cases d)
  case (DriveHigh q)
  then show ?thesis
    using assms
    by (auto simp: drive_call_def gpio_set_def raise_error_if_negative_def Let_def
        split: if_splits)
next
  case (DriveLow q)
  then show ?thesis
    using assms
    by (auto simp: drive_call_def gpio_clear_def raise_error_if_negative_def Let_def
        split: if_splits)
next
  case (Toggle q)
  then show ?thesis
    using assms
    by (auto simp: drive_call_def gpio_toggle_def gpio_set_def gpio_clear_def
        raise_error_if_negative_def Let_def split: if_splits)
qed

lemma drive_all_level:
  assumes "distinct (self_high_gpio_outputs s)"
    and "drive_all env ds s tr = (hist, s2, tr2)"
  shows "distinct (self_high_gpio_outputs s2)
    \<and> self_configured_gpio_outputs s2 = self_configured_gpio_outputs s
    \<and> (p \<in> set (self_high_gpio_outputs s2)) =
        last_driven p (p \<in> set (self_high_gpio_outputs s)) hist"
  using assms
proof (induction ds arbitrary: s tr hist)
  case Nil
  then show ?case
    by simp
next
  case (Cons d ds)
  obtain r s1 tr1 where c: "drive_call env s d tr = (r, s1, tr1)"
    by (cases "drive_call env s d tr") auto
  obtain h where a: "drive_all env ds s1 tr1 = (h, s2, tr2)"
    and hist: "hist = (d, isl r = False) # h"
    using Cons.prems(2) c by (auto split: prod.splits)
  have step: "distinct (self_high_gpio_outputs s1)
    \<and> self_configured_gpio_outputs s1 = self_configured_gpio_outputs s
    \<and> (p \<in> set (self_high_gpio_outputs s1)) =
        drive_level p (p \<in> set (self_high_gpio_outputs s)) (d, isl r = False)"
    using Cons.prems(1) c by (rule drive_call_step)
  have rest: "distinct (self_high_gpio_outputs s2)
    \<and> self_configured_gpio_outputs s2 = self_configured_gpio_outputs s1
    \<and> (p \<in> set (self_high_gpio_outputs s2)) =
        last_driven p (p \<in> set (self_high_gpio_outputs s1)) h"
    using step a by (intro Cons.IH) auto
  show ?case
    using step rest hist by simp
qed

text \<open>
  C2. \<^verbatim>\<open>gpio_get\<close> on a pin that is in the cached list of configured outputs
  returns whether the pin is in the cached list of high outputs and makes no
  transport call. On any other pin it makes exactly one call, \<^verbatim>\<open>aa_gpio_change\<close>
  with a timeout of 32, and returns whether the pin is among the pins of the
  returned bitmask (it raises when the bitmask is negative); the cached list of high
  outputs plays no part. The pins of a bitmask are those of \<^verbatim>\<open>GPIO_MISO\<close>,
  \<^verbatim>\<open>GPIO_MOSI\<close>, \<^verbatim>\<open>GPIO_SCK\<close>, \<^verbatim>\<open>GPIO_SCL\<close>, \<^verbatim>\<open>GPIO_SDA\<close> and \<^verbatim>\<open>GPIO_SS\<close> whose
  mask has a bit in common with it. After any sequence of \<^verbatim>\<open>gpio_set\<close>, \<^verbatim>\<open>gpio_clear\<close> and
  \<^verbatim>\<open>gpio_toggle\<close> calls on a session whose list of high outputs had no duplicates
  (it has none after opening), the value read for a configured output is the level
  that the last successful call on that pin asked for.
\<close>

theorem C2_gpio_get_cache_or_poll:
  "(pin \<in> set (self_configured_gpio_outputs s) \<longrightarrow>
      gpio_get K env s pin tr = (Inr (pin \<in> set (self_high_gpio_outputs s)), tr))
   \<and> (pin \<notin> set (self_configured_gpio_outputs s) \<longrightarrow>
      gpio_get K env s pin tr =
        (if status env tr (AaGpioChange (self_handle s) 32) < 0
         then Inl (IOError (status env tr (AaGpioChange (self_handle s) 32)))
         else Inr (pin \<in> set [GPIO_MISO K, GPIO_MOSI K, GPIO_SCK K, GPIO_SCL K, GPIO_SDA K,
                             GPIO_SS K]
                  \<and> status env tr (AaGpioChange (self_handle s) 32) AND pin \<noteq> 0),
         tr @ [AaGpioChange (self_handle s) 32]))
   \<and> (\<forall>s0 tr0 ds hist.
        distinct (self_high_gpio_outputs s0)
        \<and> drive_all env ds s0 tr0 = (hist, s, tr)
        \<and> pin \<in> set (self_configured_gpio_outputs s) \<longrightarrow>
        gpio_get K env s pin tr =
          (Inr (last_driven pin (pin \<in> set (self_high_gpio_outputs s0)) hist), tr))"
proof (intro conjI impI allI)
  assume "pin \<in> set (self_configured_gpio_outputs s)"
  then show "gpio_get K env s pin tr = (Inr (pin \<in> set (self_high_gpio_outputs s)), tr)"
    by (simp add: gpio_get_def)
next
  assume n: "pin \<notin> set (self_configured_gpio_outputs s)"
  have "gpio_get K env s pin tr =
        (if status env tr (AaGpioChange (self_handle s) 32) < 0
         then Inl (IOError (status env tr (AaGpioChange (self_handle s) 32)))
         else Inr (pin \<in> set (gpios K)
                  \<and> status env tr (AaGpioChange (self_handle s) 32) AND pin \<noteq> 0),
         tr @ [AaGpioChange (self_handle s) 32])"
    using n by (simp add: gpio_get_def gpio_poll_def raise_error_if_negative_def Let_def)
  then show "gpio_get K env s pin tr =
        (if status env tr (AaGpioChange (self_handle s) 32) < 0
         then Inl (IOError (status env tr (AaGpioChange (self_handle s) 32)))
         else Inr (pin \<in> set [GPIO_MISO K, GPIO_MOSI K, GPIO_SCK K, GPIO_SCL K, GPIO_SDA K,
                             GPIO_SS K]
                  \<and> status env tr (AaGpioChange (self_handle s) 32) AND pin \<noteq> 0),
         tr @ [AaGpioChange (self_handle s) 32])"
    by (simp only: gpios_def)
next
  fix s0 tr0 ds hist
  assume a: "distinct (self_high_gpio_outputs s0)
        \<and> drive_all env ds s0 tr0 = (hist, s, tr)
        \<and> pin \<in> set (self_configured_gpio_outputs s)"
  then have "(pin \<in> set (self_high_gpio_outputs s)) =
      last_driven pin (pin \<in> set (self_high_gpio_outputs s0)) hist"
    using drive_all_level [of s0 env ds tr0 hist s tr pin] by simp
  then show "gpio_get K env s pin tr =
      (Inr (last_driven pin (pin \<in> set (self_high_gpio_outputs s0)) hist), tr)"
    using a by (simp add: gpio_get_def)
qed

theorem C2_gpio_get_cache_or_poll_witness:
  "drive_all quiet_transport [DriveHigh 4, DriveHigh 16, Toggle 4]
      (fresh_session\<lparr>self_configured_gpio_outputs := [4, 16]\<rparr>) [] =
     ([(DriveHigh 4, True), (DriveHigh 16, True), (Toggle 4, True)],
      fresh_session\<lparr>self_configured_gpio_outputs := [4, 16], self_high_gpio_outputs := [16]\<rparr>,
      [AaGpioSet (Some 0) 4, AaGpioSet (Some 0) 20, AaGpioSet (Some 0) 16])
   \<and> gpio_get aardvark_constants quiet_transport
       (fresh_session\<lparr>self_configured_gpio_outputs := [4, 16], self_high_gpio_outputs := [16]\<rparr>)
       4 [AaGpioSet (Some 0) 4, AaGpioSet (Some 0) 20, AaGpioSet (Some 0) 16] =
     (Inr False, [AaGpioSet (Some 0) 4, AaGpioSet (Some 0) 20, AaGpioSet (Some 0) 16])
   \<and> gpio_get aardvark_constants quiet_transport
       (fresh_session\<lparr>self_high_gpio_outputs := [2]\<rparr>) 2 [] =
     (Inr False, [AaGpioChange (Some 0) 32])
   \<and> gpio_get aardvark_constants sda_high_transport fresh_session 2 [] =
     (Inr True, [AaGpioChange (Some 0) 32])
   \<and> gpio_get aardvark_constants sda_high_transport fresh_session 1 [] =
     (Inr False, [AaGpioChange (Some 0) 32])"
proof -
  have run: "drive_all quiet_transport [DriveHigh 4, DriveHigh 16, Toggle 4]
      (fresh_session\<lparr>self_configured_gpio_outputs := [4, 16]\<rparr>) [] =
     ([(DriveHigh 4, True), (DriveHigh 16, True), (Toggle 4, True)],
      fresh_session\<lparr>self_configured_gpio_outputs := [4, 16], self_high_gpio_outputs := [16]\<rparr>,
      [AaGpioSet (Some 0) 4, AaGpioSet (Some 0) 20, AaGpioSet (Some 0) 16])"
    by (simp add: drive_call_def gpio_set_def gpio_clear_def gpio_toggle_def
        raise_error_if_negative_def Let_def quiet_transport_def fresh_session_def)
  have d: "distinct (self_high_gpio_outputs
      (fresh_session\<lparr>self_configured_gpio_outputs := [4, 16]\<rparr>))"
    by (simp add: fresh_session_def)
  have lvl: "last_driven 4 False [(DriveHigh 4, True), (DriveHigh 16, True), (Toggle 4, True)]
      = False"
    by simp
  have cached: "gpio_get aardvark_constants quiet_transport
       (fresh_session\<lparr>self_configured_gpio_outputs := [4, 16], self_high_gpio_outputs := [16]\<rparr>)
       4 [AaGpioSet (Some 0) 4, AaGpioSet (Some 0) 20, AaGpioSet (Some 0) 16] =
     (Inr False, [AaGpioSet (Some 0) 4, AaGpioSet (Some 0) 20, AaGpioSet (Some 0) 16])"
    using C2_gpio_get_cache_or_poll
      [of 4 "fresh_session\<lparr>self_configured_gpio_outputs := [4, 16],
              self_high_gpio_outputs := [16]\<rparr>"
          aardvark_constants quiet_transport
          "[AaGpioSet (Some 0) 4, AaGpioSet (Some 0) 20, AaGpioSet (Some 0) 16]"]
      run d lvl
    by (simp add: fresh_session_def)
  have polled: "gpio_get aardvark_constants quiet_transport
       (fresh_session\<lparr>self_high_gpio_outputs := [2]\<rparr>) 2 [] =
     (Inr False, [AaGpioChange (Some 0) 32])"
    using C2_gpio_get_cache_or_poll
      [of 2 "fresh_session\<lparr>self_high_gpio_outputs := [2]\<rparr>"
          aardvark_constants quiet_transport "[]"]
    by (simp add: fresh_session_def quiet_transport_def aardvark_constants_def)
  have high: "gpio_get aardvark_constants sda_high_transport fresh_session 2 [] =
     (Inr True, [AaGpioChange (Some 0) 32])"
    using C2_gpio_get_cache_or_poll
      [of 2 fresh_session aardvark_constants sda_high_transport "[]"]
    by (simp add: fresh_session_def sda_high_transport_def aardvark_constants_def)
  have low: "gpio_get aardvark_constants sda_high_transport fresh_session 1 [] =
     (Inr False, [AaGpioChange (Some 0) 32])"
    using C2_gpio_get_cache_or_poll
      [of 1 fresh_session aardvark_constants sda_high_transport "[]"]
    by (simp add: fresh_session_def sda_high_transport_def aardvark_constants_def)
  show ?thesis
    using run cached polled high low by blast
qed

section \<open>The invariant on the shadow GPIO state\<close>

text \<open>
  C5, as the specification has it: the high outputs are always among the configured
  outputs. The code does not keep this: \<^verbatim>\<open>gpio_set\<close> never looks at the configured
  outputs. On a session just opened, where both lists are empty, \<^verbatim>\<open>gpio_set\<close> of pin
  32 succeeds and leaves a high output that is not a configured output.
\<close>

theorem C5_counterexample:
  "Aardvark_init aardvark_constants quiet_transport 0 [] =
     (Inr fresh_session, [AaOpenExt 0, AaConfigure (Some 0) 3])
   \<and> high_subset_configured fresh_session
   \<and> gpio_set quiet_transport fresh_session 32 [AaOpenExt 0, AaConfigure (Some 0) 3] =
     (Inr (), fresh_session\<lparr>self_high_gpio_outputs := [32]\<rparr>,
      [AaOpenExt 0, AaConfigure (Some 0) 3, AaGpioSet (Some 0) 32])
   \<and> \<not> high_subset_configured (fresh_session\<lparr>self_high_gpio_outputs := [32]\<rparr>)"
proof -
  have i: "Aardvark_init aardvark_constants quiet_transport 0 [] =
     (Inr fresh_session, [AaOpenExt 0, AaConfigure (Some 0) 3])"
    by (simp add: Aardvark_init_def aardvark_constants_def quiet_transport_def zero_version_def
        raise_error_if_negative_def interface_configuration_def fresh_session_def Let_def
        to_version_str_def fmt_d_def dec.simps digit_char_def)
  have h: "high_subset_configured fresh_session"
    by (simp add: high_subset_configured_def fresh_session_def)
  have g: "gpio_set quiet_transport fresh_session 32 [AaOpenExt 0, AaConfigure (Some 0) 3] =
     (Inr (), fresh_session\<lparr>self_high_gpio_outputs := [32]\<rparr>,
      [AaOpenExt 0, AaConfigure (Some 0) 3, AaGpioSet (Some 0) 32])"
    by (simp add: gpio_set_def raise_error_if_negative_def Let_def quiet_transport_def
        fresh_session_def)
  have n: "\<not> high_subset_configured (fresh_session\<lparr>self_high_gpio_outputs := [32]\<rparr>)"
    by (simp add: high_subset_configured_def fresh_session_def)
  show ?thesis
    using i h g n by blast
qed

text \<open>
  C5, amended. The invariant holds on every session that the constructor returns
  (both lists are empty). \<^verbatim>\<open>gpio_clear\<close> preserves it. \<^verbatim>\<open>gpio_set\<close> and
  \<^verbatim>\<open>gpio_toggle\<close> preserve it when the pin is a configured output. The setter of
  \<^verbatim>\<open>configured_gpio_outputs\<close> preserves it when every high output is in the new
  list. The setters of \<^verbatim>\<open>enabled_gpio_pullups\<close> and \<^verbatim>\<open>i2c_slave_response\<close> and
  \<^verbatim>\<open>close\<close> change neither list.
\<close>

theorem C5_invariant_where_it_holds:
  "(\<forall>s0 tr1. Aardvark_init K env p tr = (Inr s0, tr1) \<longrightarrow>
        self_configured_gpio_outputs s0 = [] \<and> self_high_gpio_outputs s0 = []
        \<and> high_subset_configured s0)
   \<and> (high_subset_configured s \<longrightarrow>
        high_subset_configured (fst (snd (gpio_clear env s pin tr))))
   \<and> (high_subset_configured s \<and> pin \<in> set (self_configured_gpio_outputs s) \<longrightarrow>
        high_subset_configured (fst (snd (gpio_set env s pin tr)))
        \<and> high_subset_configured (fst (snd (gpio_toggle env s pin tr))))
   \<and> (high_subset_configured s \<and> set (self_high_gpio_outputs s) \<subseteq> set pins \<longrightarrow>
        high_subset_configured (fst (snd (configured_gpio_outputs_set env s pins tr))))
   \<and> high_subset_configured (fst (snd (enabled_gpio_pullups_set env s pins tr))) =
        high_subset_configured s
   \<and> high_subset_configured (fst (snd (i2c_slave_response_set env s data tr))) =
        high_subset_configured s
   \<and> high_subset_configured (fst (snd (close s tr))) = high_subset_configured s"
proof (intro conjI impI allI)
  fix s0 tr1
  assume "Aardvark_init K env p tr = (Inr s0, tr1)"
  then have "self_configured_gpio_outputs s0 = [] \<and> self_high_gpio_outputs s0 = []"
    by (auto simp: Aardvark_init_def Let_def split: sum.splits prod.splits)
  then show "self_configured_gpio_outputs s0 = []" and "self_high_gpio_outputs s0 = []"
    and "high_subset_configured s0"
    by (simp_all add: high_subset_configured_def)
next
  assume "high_subset_configured s"
  then show "high_subset_configured (fst (snd (gpio_clear env s pin tr)))"
    using set_remove1_subset [of pin "self_high_gpio_outputs s"]
    by (auto simp: high_subset_configured_def gpio_clear_def raise_error_if_negative_def Let_def)
next
  assume a: "high_subset_configured s \<and> pin \<in> set (self_configured_gpio_outputs s)"
  then show g: "high_subset_configured (fst (snd (gpio_set env s pin tr)))"
    by (auto simp: high_subset_configured_def gpio_set_def raise_error_if_negative_def Let_def)
  have "high_subset_configured (fst (snd (gpio_clear env s pin tr)))"
    using a set_remove1_subset [of pin "self_high_gpio_outputs s"]
    by (auto simp: high_subset_configured_def gpio_clear_def raise_error_if_negative_def Let_def)
  then show "high_subset_configured (fst (snd (gpio_toggle env s pin tr)))"
    using g by (simp add: gpio_toggle_def)
next
  assume "high_subset_configured s \<and> set (self_high_gpio_outputs s) \<subseteq> set pins"
  then show "high_subset_configured (fst (snd (configured_gpio_outputs_set env s pins tr)))"
    by (auto simp: high_subset_configured_def configured_gpio_outputs_set_def
        raise_error_if_negative_def Let_def)
next
  show "high_subset_configured (fst (snd (enabled_gpio_pullups_set env s pins tr))) =
        high_subset_configured s"
    by (simp add: high_subset_configured_def enabled_gpio_pullups_set_def
        raise_error_if_negative_def Let_def)
next
  show "high_subset_configured (fst (snd (i2c_slave_response_set env s data tr))) =
        high_subset_configured s"
    by (simp add: high_subset_configured_def i2c_slave_response_set_def
        raise_error_if_negative_def Let_def)
next
  show "high_subset_configured (fst (snd (close s tr))) = high_subset_configured s"
    by (simp add: high_subset_configured_def close_def split: option.splits)
qed

theorem C5_invariant_where_it_holds_witness:
  "Aardvark_init aardvark_constants quiet_transport 0 [] =
     (Inr fresh_session, [AaOpenExt 0, AaConfigure (Some 0) 3])
   \<and> high_subset_configured fresh_session
   \<and> high_subset_configured (fresh_session\<lparr>self_configured_gpio_outputs := [32, 2]\<rparr>)
   \<and> high_subset_configured (fst (snd (gpio_set quiet_transport
        (fresh_session\<lparr>self_configured_gpio_outputs := [32, 2]\<rparr>) 32 [])))
   \<and> high_subset_configured (fst (snd (gpio_toggle quiet_transport
        (fresh_session\<lparr>self_configured_gpio_outputs := [32, 2]\<rparr>) 32 [])))
   \<and> high_subset_configured (fst (snd (gpio_clear quiet_transport
        (fresh_session\<lparr>self_configured_gpio_outputs := [32, 2]\<rparr>) 32 [])))
   \<and> high_subset_configured (fst (snd (configured_gpio_outputs_set quiet_transport
        (fresh_session\<lparr>self_configured_gpio_outputs := [32, 2]\<rparr>) [2] [])))"
proof -
  have i: "Aardvark_init aardvark_constants quiet_transport 0 [] =
     (Inr fresh_session, [AaOpenExt 0, AaConfigure (Some 0) 3])"
    by (simp add: Aardvark_init_def aardvark_constants_def quiet_transport_def zero_version_def
        raise_error_if_negative_def interface_configuration_def fresh_session_def Let_def
        to_version_str_def fmt_d_def dec.simps digit_char_def)
  have h: "high_subset_configured (fresh_session\<lparr>self_configured_gpio_outputs := [32, 2]\<rparr>)
    \<and> 32 \<in> set (self_configured_gpio_outputs
        (fresh_session\<lparr>self_configured_gpio_outputs := [32, 2]\<rparr>))
    \<and> set (self_high_gpio_outputs (fresh_session\<lparr>self_configured_gpio_outputs := [32, 2]\<rparr>))
        \<subseteq> set [2]"
    by (simp add: high_subset_configured_def fresh_session_def)
  show ?thesis
    using i h
      C5_invariant_where_it_holds [of aardvark_constants quiet_transport 0 "[]"
        "fresh_session\<lparr>self_configured_gpio_outputs := [32, 2]\<rparr>" 32 "[2]" "[]"]
    by blast
qed

section \<open>Operations on a closed session\<close>

text \<open>
  C6, as the specification has it: every operation on a closed session fails with a
  \<^verbatim>\<open>ClosedSession\<close> error, and none is a silent no-op. The session has no such check.
  On the session opened on port 0 and then closed, \<^verbatim>\<open>gpio_clear\<close> of pin 32 returns
  normally and does nothing, and so does assigning the empty list to
  \<^verbatim>\<open>configured_gpio_outputs\<close>: neither reaches the transport.
\<close>

theorem C6_counterexample:
  "Aardvark_init aardvark_constants quiet_transport 0 [] =
     (Inr fresh_session, [AaOpenExt 0, AaConfigure (Some 0) 3])
   \<and> close fresh_session [AaOpenExt 0, AaConfigure (Some 0) 3] =
     (Inr (), closed_session, [AaOpenExt 0, AaConfigure (Some 0) 3, AaClose (Some 0)])
   \<and> gpio_clear quiet_transport closed_session 32
       [AaOpenExt 0, AaConfigure (Some 0) 3, AaClose (Some 0)] =
     (Inr (), closed_session, [AaOpenExt 0, AaConfigure (Some 0) 3, AaClose (Some 0)])
   \<and> configured_gpio_outputs_set quiet_transport closed_session []
       [AaOpenExt 0, AaConfigure (Some 0) 3, AaClose (Some 0)] =
     (Inr (), closed_session, [AaOpenExt 0, AaConfigure (Some 0) 3, AaClose (Some 0)])"
proof -
  have i: "Aardvark_init aardvark_constants quiet_transport 0 [] =
     (Inr fresh_session, [AaOpenExt 0, AaConfigure (Some 0) 3])"
    by (simp add: Aardvark_init_def aardvark_constants_def quiet_transport_def zero_version_def
        raise_error_if_negative_def interface_configuration_def fresh_session_def Let_def
        to_version_str_def fmt_d_def dec.simps digit_char_def)
  have c1: "close fresh_session [AaOpenExt 0, AaConfigure (Some 0) 3] =
     (Inr (), closed_session, [AaOpenExt 0, AaConfigure (Some 0) 3, AaClose (Some 0)])"
    by (simp add: close_def closed_session_def fresh_session_def)
  have g: "gpio_clear quiet_transport closed_session 32
       [AaOpenExt 0, AaConfigure (Some 0) 3, AaClose (Some 0)] =
     (Inr (), closed_session, [AaOpenExt 0, AaConfigure (Some 0) 3, AaClose (Some 0)])"
    by (simp add: gpio_clear_def closed_session_def fresh_session_def)
  have o: "configured_gpio_outputs_set quiet_transport closed_session []
       [AaOpenExt 0, AaConfigure (Some 0) 3, AaClose (Some 0)] =
     (Inr (), closed_session, [AaOpenExt 0, AaConfigure (Some 0) 3, AaClose (Some 0)])"
    by (simp add: configured_gpio_outputs_set_def closed_session_def fresh_session_def)
  show ?thesis
    using i c1 g o by blast
qed

text \<open>
  C6, amended. The session never checks that it is open. On a closed session (the
  handle is \<^verbatim>\<open>None\<close>) the operations that are answered from the cache return as they
  do on an open session, without a transport call: \<^verbatim>\<open>gpio_get\<close> of a configured
  output, \<^verbatim>\<open>gpio_clear\<close> of a pin that is not high, \<^verbatim>\<open>gpio_set\<close> of a pin that is
  high, and the setters of \<^verbatim>\<open>configured_gpio_outputs\<close> and \<^verbatim>\<open>enabled_gpio_pullups\<close>
  when the sum of the masks is unchanged. Every other operation modelled here makes
  its transport call, with \<^verbatim>\<open>None\<close> as the handle; whether it then fails is up to
  the transport. These are \<^verbatim>\<open>close\<close> (which leaves the object as it is),
  \<^verbatim>\<open>unique_id\<close>, \<^verbatim>\<open>unique_id_str\<close>, the getters and setters of \<^verbatim>\<open>enable_i2c\<close> and
  \<^verbatim>\<open>enable_spi\<close>, the setter of \<^verbatim>\<open>i2c_slave_response\<close>, the two list setters when
  the sum changes, \<^verbatim>\<open>gpio_set\<close> of a pin that is not high, \<^verbatim>\<open>gpio_clear\<close> of a pin
  that is high, \<^verbatim>\<open>gpio_toggle\<close>, \<^verbatim>\<open>gpio_poll\<close>, and \<^verbatim>\<open>gpio_get\<close> of a pin that is
  not a configured output. On an open session \<^verbatim>\<open>close\<close> hands the handle to
  \<^verbatim>\<open>aa_close\<close> and sets it to \<^verbatim>\<open>None\<close>.
\<close>

theorem C6_closed_session_is_not_checked:
  assumes "self_handle s = None"
  shows "(pin \<in> set (self_configured_gpio_outputs s) \<longrightarrow>
        gpio_get K env s pin tr = (Inr (pin \<in> set (self_high_gpio_outputs s)), tr))
    \<and> (pin \<notin> set (self_high_gpio_outputs s) \<longrightarrow> gpio_clear env s pin tr = (Inr (), s, tr))
    \<and> (pin \<in> set (self_high_gpio_outputs s) \<longrightarrow> gpio_set env s pin tr = (Inr (), s, tr))
    \<and> (sum_list pins = sum_list (self_configured_gpio_outputs s) \<longrightarrow>
        configured_gpio_outputs_set env s pins tr = (Inr (), s, tr))
    \<and> (sum_list pins = sum_list (self_enabled_gpio_pullups s) \<longrightarrow>
        enabled_gpio_pullups_set env s pins tr = (Inr (), s, tr))
    \<and> fst (snd (close s tr)) = s
    \<and> snd (snd (close s tr)) = tr @ [AaClose None]
    \<and> snd (unique_id env s tr) = tr @ [AaUniqueId None]
    \<and> snd (Aardvark_unique_id_str env s tr) = tr @ [AaUniqueId None]
    \<and> snd (enable_i2c_get K env s tr) = tr @ [AaConfigure None (CONFIG_QUERY K)]
    \<and> snd (enable_spi_get K env s tr) = tr @ [AaConfigure None (CONFIG_QUERY K)]
    \<and> (snd (enable_i2c_set K env s v tr) = tr @ [AaConfigure None (CONFIG_QUERY K)]
        \<or> snd (enable_i2c_set K env s v tr) =
            tr @ [AaConfigure None (CONFIG_QUERY K),
                  AaConfigure None (i2c_new_config K v
                    (status env tr (AaConfigure None (CONFIG_QUERY K))))])
    \<and> (snd (enable_spi_set K env s v tr) = tr @ [AaConfigure None (CONFIG_QUERY K)]
        \<or> snd (enable_spi_set K env s v tr) =
            tr @ [AaConfigure None (CONFIG_QUERY K),
                  AaConfigure None (spi_new_config K v
                    (status env tr (AaConfigure None (CONFIG_QUERY K))))])
    \<and> snd (snd (i2c_slave_response_set env s data tr)) = tr @ [AaI2cSlaveSetResponse None data]
    \<and> (sum_list pins \<noteq> sum_list (self_configured_gpio_outputs s) \<longrightarrow>
        snd (snd (configured_gpio_outputs_set env s pins tr)) =
          tr @ [AaGpioDirection None (sum_list pins)])
    \<and> (sum_list pins \<noteq> sum_list (self_enabled_gpio_pullups s) \<longrightarrow>
        snd (snd (enabled_gpio_pullups_set env s pins tr)) =
          tr @ [AaGpioPullup None (sum_list pins)])
    \<and> (pin \<notin> set (self_high_gpio_outputs s) \<longrightarrow>
        snd (snd (gpio_set env s pin tr)) =
          tr @ [AaGpioSet None (sum_list (self_high_gpio_outputs s @ [pin]))])
    \<and> (pin \<in> set (self_high_gpio_outputs s) \<longrightarrow>
        snd (snd (gpio_clear env s pin tr)) =
          tr @ [AaGpioSet None (sum_list (remove1 pin (self_high_gpio_outputs s)))])
    \<and> snd (snd (gpio_toggle env s pin tr)) =
          tr @ [AaGpioSet None (sum_list
                 (if pin \<in> set (self_high_gpio_outputs s)
                  then remove1 pin (self_high_gpio_outputs s)
                  else self_high_gpio_outputs s @ [pin]))]
    \<and> snd (gpio_poll K env s timeout tr) = tr @ [AaGpioChange None timeout]
    \<and> (pin \<notin> set (self_configured_gpio_outputs s) \<longrightarrow>
        snd (gpio_get K env s pin tr) = tr @ [AaGpioChange None 32])
    \<and> (\<forall>h. self_handle s1 = Some h \<longrightarrow>
        close s1 tr = (Inr (), s1\<lparr>self_handle := None\<rparr>, tr @ [AaClose (Some h)]))"
proof -
  have g: "pin \<in> set (self_configured_gpio_outputs s) \<longrightarrow>
        gpio_get K env s pin tr = (Inr (pin \<in> set (self_high_gpio_outputs s)), tr)"
    by (simp add: gpio_get_def)
  have cl: "pin \<notin> set (self_high_gpio_outputs s) \<longrightarrow> gpio_clear env s pin tr = (Inr (), s, tr)"
    by (simp add: gpio_clear_def)
  have st: "pin \<in> set (self_high_gpio_outputs s) \<longrightarrow> gpio_set env s pin tr = (Inr (), s, tr)"
    by (simp add: gpio_set_def)
  have co: "sum_list pins = sum_list (self_configured_gpio_outputs s) \<longrightarrow>
        configured_gpio_outputs_set env s pins tr = (Inr (), s, tr)"
    by (simp add: configured_gpio_outputs_set_def)
  have pu: "sum_list pins = sum_list (self_enabled_gpio_pullups s) \<longrightarrow>
        enabled_gpio_pullups_set env s pins tr = (Inr (), s, tr)"
    by (simp add: enabled_gpio_pullups_set_def)
  have c1: "fst (snd (close s tr)) = s"
    using assms by (simp add: close_def)
  have c2: "snd (snd (close s tr)) = tr @ [AaClose None]"
    using assms by (simp add: close_def)
  have u: "snd (unique_id env s tr) = tr @ [AaUniqueId None]"
    using assms by (simp add: unique_id_def)
  have us: "snd (Aardvark_unique_id_str env s tr) = tr @ [AaUniqueId None]"
    using assms by (simp add: Aardvark_unique_id_str_def unique_id_def)
  have i2c: "snd (enable_i2c_get K env s tr) = tr @ [AaConfigure None (CONFIG_QUERY K)]"
    using assms
    by (simp add: enable_i2c_get_def interface_configuration_def raise_error_if_negative_def
        Let_def)
  have spi: "snd (enable_spi_get K env s tr) = tr @ [AaConfigure None (CONFIG_QUERY K)]"
    using assms
    by (simp add: enable_spi_get_def interface_configuration_def raise_error_if_negative_def
        Let_def)
  have i2cs: "snd (enable_i2c_set K env s v tr) = tr @ [AaConfigure None (CONFIG_QUERY K)]
        \<or> snd (enable_i2c_set K env s v tr) =
            tr @ [AaConfigure None (CONFIG_QUERY K),
                  AaConfigure None (i2c_new_config K v
                    (status env tr (AaConfigure None (CONFIG_QUERY K))))]"
    using assms
    by (simp add: enable_i2c_set_def interface_configuration_def raise_error_if_negative_def
        Let_def)
  have spis: "snd (enable_spi_set K env s v tr) = tr @ [AaConfigure None (CONFIG_QUERY K)]
        \<or> snd (enable_spi_set K env s v tr) =
            tr @ [AaConfigure None (CONFIG_QUERY K),
                  AaConfigure None (spi_new_config K v
                    (status env tr (AaConfigure None (CONFIG_QUERY K))))]"
    using assms
    by (simp add: enable_spi_set_def interface_configuration_def raise_error_if_negative_def
        Let_def)
  have sl: "snd (snd (i2c_slave_response_set env s data tr)) =
      tr @ [AaI2cSlaveSetResponse None data]"
    using assms by (simp add: i2c_slave_response_set_def raise_error_if_negative_def Let_def)
  have cos: "sum_list pins \<noteq> sum_list (self_configured_gpio_outputs s) \<longrightarrow>
        snd (snd (configured_gpio_outputs_set env s pins tr)) =
          tr @ [AaGpioDirection None (sum_list pins)]"
    using assms
    by (simp add: configured_gpio_outputs_set_def raise_error_if_negative_def Let_def)
  have pus: "sum_list pins \<noteq> sum_list (self_enabled_gpio_pullups s) \<longrightarrow>
        snd (snd (enabled_gpio_pullups_set env s pins tr)) =
          tr @ [AaGpioPullup None (sum_list pins)]"
    using assms
    by (simp add: enabled_gpio_pullups_set_def raise_error_if_negative_def Let_def)
  have sts: "pin \<notin> set (self_high_gpio_outputs s) \<longrightarrow>
        snd (snd (gpio_set env s pin tr)) =
          tr @ [AaGpioSet None (sum_list (self_high_gpio_outputs s @ [pin]))]"
    using assms by (simp add: gpio_set_def raise_error_if_negative_def Let_def)
  have cls: "pin \<in> set (self_high_gpio_outputs s) \<longrightarrow>
        snd (snd (gpio_clear env s pin tr)) =
          tr @ [AaGpioSet None (sum_list (remove1 pin (self_high_gpio_outputs s)))]"
    using assms by (simp add: gpio_clear_def raise_error_if_negative_def Let_def)
  have tg: "snd (snd (gpio_toggle env s pin tr)) =
          tr @ [AaGpioSet None (sum_list
                 (if pin \<in> set (self_high_gpio_outputs s)
                  then remove1 pin (self_high_gpio_outputs s)
                  else self_high_gpio_outputs s @ [pin]))]"
    using sts cls by (simp add: gpio_toggle_def)
  have po: "snd (gpio_poll K env s timeout tr) = tr @ [AaGpioChange None timeout]"
    using assms by (simp add: gpio_poll_def raise_error_if_negative_def Let_def)
  have gp: "pin \<notin> set (self_configured_gpio_outputs s) \<longrightarrow>
        snd (gpio_get K env s pin tr) = tr @ [AaGpioChange None 32]"
    using assms by (simp add: gpio_get_def gpio_poll_def raise_error_if_negative_def Let_def)
  have op: "\<forall>h. self_handle s1 = Some h \<longrightarrow>
        close s1 tr = (Inr (), s1\<lparr>self_handle := None\<rparr>, tr @ [AaClose (Some h)])"
    by (simp add: close_def)
  show ?thesis
    using g cl st co pu c1 c2 u us i2c spi i2cs spis sl cos pus sts cls tg po gp op
    by (intro conjI)
qed

theorem C6_closed_session_is_not_checked_witness:
  "self_handle closed_session = None
   \<and> gpio_clear quiet_transport closed_session 32 [] = (Inr (), closed_session, [])
   \<and> configured_gpio_outputs_set quiet_transport closed_session [] [] =
       (Inr (), closed_session, [])
   \<and> snd (snd (close closed_session [])) = [AaClose None]
   \<and> snd (snd (gpio_set quiet_transport closed_session 32 [])) = [AaGpioSet None 32]
   \<and> snd (gpio_poll aardvark_constants quiet_transport closed_session 32 []) =
       [AaGpioChange None 32]
   \<and> close fresh_session [] = (Inr (), closed_session, [AaClose (Some 0)])"
proof -
  have h: "self_handle closed_session = None"
    by (simp add: closed_session_def)
  have n: "32 \<notin> set (self_high_gpio_outputs closed_session)
    \<and> sum_list [] = sum_list (self_configured_gpio_outputs closed_session)
    \<and> self_high_gpio_outputs closed_session = []
    \<and> self_handle fresh_session = Some 0"
    by (simp add: closed_session_def fresh_session_def)
  show ?thesis
    using h n
      C6_closed_session_is_not_checked [OF h, of 32 aardvark_constants quiet_transport "[]" "[]"
        True "[]" 32 fresh_session]
    by (simp add: closed_session_def)
qed

section \<open>Enabling and disabling I2C and SPI\<close>

lemma enable_spi_set_eq:
  assumes "0 \<le> status env tr (AaConfigure (self_handle s) (CONFIG_QUERY K))"
  shows "enable_spi_set K env s v tr =
     (if spi_new_config K v (status env tr (AaConfigure (self_handle s) (CONFIG_QUERY K))) =
           status env tr (AaConfigure (self_handle s) (CONFIG_QUERY K))
      then (Inr (), tr @ [AaConfigure (self_handle s) (CONFIG_QUERY K)])
      else (if status env (tr @ [AaConfigure (self_handle s) (CONFIG_QUERY K)])
                 (AaConfigure (self_handle s) (spi_new_config K v
                    (status env tr (AaConfigure (self_handle s) (CONFIG_QUERY K))))) < 0
            then Inl (IOError (status env (tr @ [AaConfigure (self_handle s) (CONFIG_QUERY K)])
                 (AaConfigure (self_handle s) (spi_new_config K v
                    (status env tr (AaConfigure (self_handle s) (CONFIG_QUERY K)))))))
            else Inr (),
            tr @ [AaConfigure (self_handle s) (CONFIG_QUERY K),
                  AaConfigure (self_handle s) (spi_new_config K v
                    (status env tr (AaConfigure (self_handle s) (CONFIG_QUERY K))))]))"
  using assms
  by (simp add: enable_spi_set_def interface_configuration_def raise_error_if_negative_def
      Let_def)

lemma enable_i2c_set_eq:
  assumes "0 \<le> status env tr (AaConfigure (self_handle s) (CONFIG_QUERY K))"
  shows "enable_i2c_set K env s v tr =
     (if i2c_new_config K v (status env tr (AaConfigure (self_handle s) (CONFIG_QUERY K))) =
           status env tr (AaConfigure (self_handle s) (CONFIG_QUERY K))
      then (Inr (), tr @ [AaConfigure (self_handle s) (CONFIG_QUERY K)])
      else (if status env (tr @ [AaConfigure (self_handle s) (CONFIG_QUERY K)])
                 (AaConfigure (self_handle s) (i2c_new_config K v
                    (status env tr (AaConfigure (self_handle s) (CONFIG_QUERY K))))) < 0
            then Inl (IOError (status env (tr @ [AaConfigure (self_handle s) (CONFIG_QUERY K)])
                 (AaConfigure (self_handle s) (i2c_new_config K v
                    (status env tr (AaConfigure (self_handle s) (CONFIG_QUERY K)))))))
            else Inr (),
            tr @ [AaConfigure (self_handle s) (CONFIG_QUERY K),
                  AaConfigure (self_handle s) (i2c_new_config K v
                    (status env tr (AaConfigure (self_handle s) (CONFIG_QUERY K))))]))"
  using assms
  by (simp add: enable_i2c_set_def interface_configuration_def raise_error_if_negative_def
      Let_def)

lemma config_cases:
  assumes "c \<in> set (configs K)"
  obtains "c = CONFIG_GPIO_ONLY K" | "c = CONFIG_SPI_GPIO K"
    | "c = CONFIG_GPIO_I2C K" | "c = CONFIG_SPI_I2C K"
  using assms by (auto simp: configs_def)

lemma config_constants_distinct:
  assumes "config_constants_ok K"
  shows "CONFIG_GPIO_ONLY K \<noteq> CONFIG_SPI_GPIO K" "CONFIG_GPIO_ONLY K \<noteq> CONFIG_GPIO_I2C K"
    "CONFIG_GPIO_ONLY K \<noteq> CONFIG_SPI_I2C K" "CONFIG_SPI_GPIO K \<noteq> CONFIG_GPIO_I2C K"
    "CONFIG_SPI_GPIO K \<noteq> CONFIG_SPI_I2C K" "CONFIG_GPIO_I2C K \<noteq> CONFIG_SPI_I2C K"
    "CONFIG_GPIO_ONLY K \<noteq> CONFIG_QUERY K" "CONFIG_SPI_GPIO K \<noteq> CONFIG_QUERY K"
    "CONFIG_GPIO_I2C K \<noteq> CONFIG_QUERY K" "CONFIG_SPI_I2C K \<noteq> CONFIG_QUERY K"
  using assms by (simp_all add: config_constants_ok_def)

lemma new_config_facets:
  assumes "config_constants_ok K" and "c \<in> set (configs K)"
  shows "i2c_enabled K (spi_new_config K v c) = i2c_enabled K c"
    and "spi_enabled K (spi_new_config K v c) = v"
    and "spi_enabled K (i2c_new_config K v c) = spi_enabled K c"
    and "i2c_enabled K (i2c_new_config K v c) = v"
  using assms(2) config_constants_distinct [OF assms(1)]
  by (cases rule: config_cases; cases v;
      simp add: i2c_enabled_def spi_enabled_def spi_new_config_def i2c_new_config_def; metis)+

lemma configs_nonneg: "config_constants_ok K \<Longrightarrow> c \<in> set (configs K) \<Longrightarrow> 0 \<le> c"
  by (auto simp: config_constants_ok_def configs_def)

text \<open>
  C1. For each of the four configurations and each boolean, the configuration that
  the setter of \<^verbatim>\<open>enable_spi\<close> asks for has the I2C facet of the configuration that
  the query returned and the SPI facet equal to the argument; for the setter of
  \<^verbatim>\<open>enable_i2c\<close> likewise with the facets exchanged. The setter makes the query and,
  only if the configuration changes, one configure call with the new configuration.
  In particular: when the query returns \<^verbatim>\<open>CONFIG_GPIO_I2C\<close>, \<^verbatim>\<open>enable_spi = True\<close>
  configures \<^verbatim>\<open>CONFIG_SPI_I2C\<close>, and when the adapter then reports that
  configuration, \<^verbatim>\<open>enable_spi = False\<close> configures \<^verbatim>\<open>CONFIG_GPIO_I2C\<close> again.
\<close>

theorem C1_setters_keep_other_facet:
  assumes "config_constants_ok K"
    and "c \<in> set (configs K)"
  shows "i2c_enabled K (spi_new_config K v c) = i2c_enabled K c
    \<and> spi_enabled K (spi_new_config K v c) = v
    \<and> spi_enabled K (i2c_new_config K v c) = spi_enabled K c
    \<and> i2c_enabled K (i2c_new_config K v c) = v
    \<and> (status env tr (AaConfigure (self_handle s) (CONFIG_QUERY K)) = c \<longrightarrow>
        enable_spi_set K env s v tr =
          (if spi_new_config K v c = c
           then (Inr (), tr @ [AaConfigure (self_handle s) (CONFIG_QUERY K)])
           else (if status env (tr @ [AaConfigure (self_handle s) (CONFIG_QUERY K)])
                      (AaConfigure (self_handle s) (spi_new_config K v c)) < 0
                 then Inl (IOError
                      (status env (tr @ [AaConfigure (self_handle s) (CONFIG_QUERY K)])
                        (AaConfigure (self_handle s) (spi_new_config K v c))))
                 else Inr (),
                 tr @ [AaConfigure (self_handle s) (CONFIG_QUERY K),
                       AaConfigure (self_handle s) (spi_new_config K v c)])))
    \<and> (status env tr (AaConfigure (self_handle s) (CONFIG_QUERY K)) = c \<longrightarrow>
        enable_i2c_set K env s v tr =
          (if i2c_new_config K v c = c
           then (Inr (), tr @ [AaConfigure (self_handle s) (CONFIG_QUERY K)])
           else (if status env (tr @ [AaConfigure (self_handle s) (CONFIG_QUERY K)])
                      (AaConfigure (self_handle s) (i2c_new_config K v c)) < 0
                 then Inl (IOError
                      (status env (tr @ [AaConfigure (self_handle s) (CONFIG_QUERY K)])
                        (AaConfigure (self_handle s) (i2c_new_config K v c))))
                 else Inr (),
                 tr @ [AaConfigure (self_handle s) (CONFIG_QUERY K),
                       AaConfigure (self_handle s) (i2c_new_config K v c)])))
    \<and> spi_new_config K True (CONFIG_GPIO_I2C K) = CONFIG_SPI_I2C K
    \<and> spi_new_config K False (CONFIG_SPI_I2C K) = CONFIG_GPIO_I2C K
    \<and> (status env tr (AaConfigure (self_handle s) (CONFIG_QUERY K)) = CONFIG_GPIO_I2C K
        \<and> 0 \<le> status env (tr @ [AaConfigure (self_handle s) (CONFIG_QUERY K)])
                (AaConfigure (self_handle s) (CONFIG_SPI_I2C K))
        \<and> status env (tr @ [AaConfigure (self_handle s) (CONFIG_QUERY K),
                             AaConfigure (self_handle s) (CONFIG_SPI_I2C K)])
             (AaConfigure (self_handle s) (CONFIG_QUERY K)) = CONFIG_SPI_I2C K
        \<and> 0 \<le> status env (tr @ [AaConfigure (self_handle s) (CONFIG_QUERY K),
                                  AaConfigure (self_handle s) (CONFIG_SPI_I2C K),
                                  AaConfigure (self_handle s) (CONFIG_QUERY K)])
                (AaConfigure (self_handle s) (CONFIG_GPIO_I2C K)) \<longrightarrow>
        enable_spi_set K env s True tr =
          (Inr (), tr @ [AaConfigure (self_handle s) (CONFIG_QUERY K),
                         AaConfigure (self_handle s) (CONFIG_SPI_I2C K)])
        \<and> enable_spi_set K env s False
             (tr @ [AaConfigure (self_handle s) (CONFIG_QUERY K),
                    AaConfigure (self_handle s) (CONFIG_SPI_I2C K)]) =
          (Inr (), tr @ [AaConfigure (self_handle s) (CONFIG_QUERY K),
                         AaConfigure (self_handle s) (CONFIG_SPI_I2C K),
                         AaConfigure (self_handle s) (CONFIG_QUERY K),
                         AaConfigure (self_handle s) (CONFIG_GPIO_I2C K)]))"
proof -
  note f = new_config_facets [OF assms, of v]
  have nn: "0 \<le> c"
    using assms by (rule configs_nonneg)
  have spi: "status env tr (AaConfigure (self_handle s) (CONFIG_QUERY K)) = c \<longrightarrow>
        enable_spi_set K env s v tr =
          (if spi_new_config K v c = c
           then (Inr (), tr @ [AaConfigure (self_handle s) (CONFIG_QUERY K)])
           else (if status env (tr @ [AaConfigure (self_handle s) (CONFIG_QUERY K)])
                      (AaConfigure (self_handle s) (spi_new_config K v c)) < 0
                 then Inl (IOError
                      (status env (tr @ [AaConfigure (self_handle s) (CONFIG_QUERY K)])
                        (AaConfigure (self_handle s) (spi_new_config K v c))))
                 else Inr (),
                 tr @ [AaConfigure (self_handle s) (CONFIG_QUERY K),
                       AaConfigure (self_handle s) (spi_new_config K v c)]))"
    using nn enable_spi_set_eq [of env tr s K v] by auto
  have i2c: "status env tr (AaConfigure (self_handle s) (CONFIG_QUERY K)) = c \<longrightarrow>
        enable_i2c_set K env s v tr =
          (if i2c_new_config K v c = c
           then (Inr (), tr @ [AaConfigure (self_handle s) (CONFIG_QUERY K)])
           else (if status env (tr @ [AaConfigure (self_handle s) (CONFIG_QUERY K)])
                      (AaConfigure (self_handle s) (i2c_new_config K v c)) < 0
                 then Inl (IOError
                      (status env (tr @ [AaConfigure (self_handle s) (CONFIG_QUERY K)])
                        (AaConfigure (self_handle s) (i2c_new_config K v c))))
                 else Inr (),
                 tr @ [AaConfigure (self_handle s) (CONFIG_QUERY K),
                       AaConfigure (self_handle s) (i2c_new_config K v c)]))"
    using nn enable_i2c_set_eq [of env tr s K v] by auto
  have up: "spi_new_config K True (CONFIG_GPIO_I2C K) = CONFIG_SPI_I2C K"
    using assms(1) by (auto simp: config_constants_ok_def spi_new_config_def)
  have down: "spi_new_config K False (CONFIG_SPI_I2C K) = CONFIG_GPIO_I2C K"
    using assms(1) by (auto simp: config_constants_ok_def spi_new_config_def)
  have ne: "CONFIG_SPI_I2C K \<noteq> CONFIG_GPIO_I2C K"
    and p1: "0 \<le> CONFIG_GPIO_I2C K" and p2: "0 \<le> CONFIG_SPI_I2C K"
    using assms(1) by (auto simp: config_constants_ok_def)
  have particular:
    "status env tr (AaConfigure (self_handle s) (CONFIG_QUERY K)) = CONFIG_GPIO_I2C K
        \<and> 0 \<le> status env (tr @ [AaConfigure (self_handle s) (CONFIG_QUERY K)])
                (AaConfigure (self_handle s) (CONFIG_SPI_I2C K))
        \<and> status env (tr @ [AaConfigure (self_handle s) (CONFIG_QUERY K),
                             AaConfigure (self_handle s) (CONFIG_SPI_I2C K)])
             (AaConfigure (self_handle s) (CONFIG_QUERY K)) = CONFIG_SPI_I2C K
        \<and> 0 \<le> status env (tr @ [AaConfigure (self_handle s) (CONFIG_QUERY K),
                                  AaConfigure (self_handle s) (CONFIG_SPI_I2C K),
                                  AaConfigure (self_handle s) (CONFIG_QUERY K)])
                (AaConfigure (self_handle s) (CONFIG_GPIO_I2C K)) \<longrightarrow>
        enable_spi_set K env s True tr =
          (Inr (), tr @ [AaConfigure (self_handle s) (CONFIG_QUERY K),
                         AaConfigure (self_handle s) (CONFIG_SPI_I2C K)])
        \<and> enable_spi_set K env s False
             (tr @ [AaConfigure (self_handle s) (CONFIG_QUERY K),
                    AaConfigure (self_handle s) (CONFIG_SPI_I2C K)]) =
          (Inr (), tr @ [AaConfigure (self_handle s) (CONFIG_QUERY K),
                         AaConfigure (self_handle s) (CONFIG_SPI_I2C K),
                         AaConfigure (self_handle s) (CONFIG_QUERY K),
                         AaConfigure (self_handle s) (CONFIG_GPIO_I2C K)])"
  proof (intro impI, elim conjE)
    assume q1: "status env tr (AaConfigure (self_handle s) (CONFIG_QUERY K)) = CONFIG_GPIO_I2C K"
      and r1: "0 \<le> status env (tr @ [AaConfigure (self_handle s) (CONFIG_QUERY K)])
                (AaConfigure (self_handle s) (CONFIG_SPI_I2C K))"
      and q2: "status env (tr @ [AaConfigure (self_handle s) (CONFIG_QUERY K),
                             AaConfigure (self_handle s) (CONFIG_SPI_I2C K)])
             (AaConfigure (self_handle s) (CONFIG_QUERY K)) = CONFIG_SPI_I2C K"
      and r2: "0 \<le> status env (tr @ [AaConfigure (self_handle s) (CONFIG_QUERY K),
                                  AaConfigure (self_handle s) (CONFIG_SPI_I2C K),
                                  AaConfigure (self_handle s) (CONFIG_QUERY K)])
                (AaConfigure (self_handle s) (CONFIG_GPIO_I2C K))"
    have a: "enable_spi_set K env s True tr =
          (Inr (), tr @ [AaConfigure (self_handle s) (CONFIG_QUERY K),
                         AaConfigure (self_handle s) (CONFIG_SPI_I2C K)])"
      using enable_spi_set_eq [of env tr s K True] q1 r1 p1 up ne by simp
    have b: "enable_spi_set K env s False
             (tr @ [AaConfigure (self_handle s) (CONFIG_QUERY K),
                    AaConfigure (self_handle s) (CONFIG_SPI_I2C K)]) =
          (Inr (), tr @ [AaConfigure (self_handle s) (CONFIG_QUERY K),
                         AaConfigure (self_handle s) (CONFIG_SPI_I2C K),
                         AaConfigure (self_handle s) (CONFIG_QUERY K),
                         AaConfigure (self_handle s) (CONFIG_GPIO_I2C K)])"
      using enable_spi_set_eq
          [of env "tr @ [AaConfigure (self_handle s) (CONFIG_QUERY K),
                         AaConfigure (self_handle s) (CONFIG_SPI_I2C K)]" s K False]
        q2 r2 p2 down ne
      by simp
    show "enable_spi_set K env s True tr =
          (Inr (), tr @ [AaConfigure (self_handle s) (CONFIG_QUERY K),
                         AaConfigure (self_handle s) (CONFIG_SPI_I2C K)])
        \<and> enable_spi_set K env s False
             (tr @ [AaConfigure (self_handle s) (CONFIG_QUERY K),
                    AaConfigure (self_handle s) (CONFIG_SPI_I2C K)]) =
          (Inr (), tr @ [AaConfigure (self_handle s) (CONFIG_QUERY K),
                         AaConfigure (self_handle s) (CONFIG_SPI_I2C K),
                         AaConfigure (self_handle s) (CONFIG_QUERY K),
                         AaConfigure (self_handle s) (CONFIG_GPIO_I2C K)])"
      using a b by (rule conjI)
  qed
  show ?thesis
    using f spi i2c up down particular by (intro conjI)
qed

lemma aardvark_constants_ok: "config_constants_ok aardvark_constants"
  by (simp add: config_constants_ok_def aardvark_constants_def)

theorem C1_setters_keep_other_facet_witness:
  "config_constants_ok aardvark_constants
   \<and> 2 \<in> set (configs aardvark_constants)
   \<and> i2c_enabled aardvark_constants 2
   \<and> \<not> spi_enabled aardvark_constants 2
   \<and> i2c_enabled aardvark_constants (spi_new_config aardvark_constants True 2)
   \<and> spi_enabled aardvark_constants (spi_new_config aardvark_constants True 2)
   \<and> enable_spi_set aardvark_constants (register_transport aardvark_constants 2)
        fresh_session True [] =
       (Inr (), [AaConfigure (Some 0) 128, AaConfigure (Some 0) 3])
   \<and> enable_spi_set aardvark_constants (register_transport aardvark_constants 2)
        fresh_session False [AaConfigure (Some 0) 128, AaConfigure (Some 0) 3] =
       (Inr (), [AaConfigure (Some 0) 128, AaConfigure (Some 0) 3,
                 AaConfigure (Some 0) 128, AaConfigure (Some 0) 2])"
proof -
  have m: "2 \<in> set (configs aardvark_constants)"
    by (simp add: configs_def aardvark_constants_def)
  have f: "i2c_enabled aardvark_constants 2 \<and> \<not> spi_enabled aardvark_constants 2
    \<and> i2c_enabled aardvark_constants 3 \<and> spi_enabled aardvark_constants 3"
    by (simp add: i2c_enabled_def spi_enabled_def aardvark_constants_def)
  have k: "CONFIG_QUERY aardvark_constants = 128 \<and> CONFIG_GPIO_I2C aardvark_constants = 2
    \<and> CONFIG_SPI_I2C aardvark_constants = 3"
    by (simp add: aardvark_constants_def)
  have h: "self_handle fresh_session = Some 0"
    by (simp add: fresh_session_def)
  have e: "status (register_transport aardvark_constants 2) [] (AaConfigure (Some 0) 128) = 2
    \<and> 0 \<le> status (register_transport aardvark_constants 2) [AaConfigure (Some 0) 128]
           (AaConfigure (Some 0) 3)
    \<and> status (register_transport aardvark_constants 2)
         [AaConfigure (Some 0) 128, AaConfigure (Some 0) 3] (AaConfigure (Some 0) 128) = 3
    \<and> 0 \<le> status (register_transport aardvark_constants 2)
           [AaConfigure (Some 0) 128, AaConfigure (Some 0) 3, AaConfigure (Some 0) 128]
           (AaConfigure (Some 0) 2)"
    by (simp add: register_transport_def aardvark_constants_def)
  show ?thesis
    using aardvark_constants_ok m f k h e
      C1_setters_keep_other_facet [OF aardvark_constants_ok m, of True
        "register_transport aardvark_constants 2" "[]" fresh_session]
    by simp
qed

section \<open>Setting enable_i2c twice\<close>

text \<open>
  C8, as the specification has it: \<^verbatim>\<open>enable_i2c = True\<close> twice in a row makes exactly
  one transport configuration call. On a session just opened this is not so. The
  constructor has configured \<^verbatim>\<open>CONFIG_SPI_I2C\<close>, so I2C is enabled already: each of
  the two assignments makes its query call and neither makes a configuration-change
  call. The two assignments make two calls of \<^verbatim>\<open>aa_configure\<close>, none of which changes
  the configuration.
\<close>

theorem C8_counterexample:
  "Aardvark_init aardvark_constants (register_transport aardvark_constants 0) 0 [] =
     (Inr (fresh_session\<lparr>self_handle := Some 1\<rparr>), [AaOpenExt 0, AaConfigure (Some 1) 3])
   \<and> enable_i2c_set_twice aardvark_constants (register_transport aardvark_constants 0)
        (fresh_session\<lparr>self_handle := Some 1\<rparr>) True
        [AaOpenExt 0, AaConfigure (Some 1) 3] =
     (Inr (), [AaOpenExt 0, AaConfigure (Some 1) 3,
               AaConfigure (Some 1) 128, AaConfigure (Some 1) 128])
   \<and> length (config_changes aardvark_constants
        [AaConfigure (Some 1) 128, AaConfigure (Some 1) 128]) = 0
   \<and> length (filter is_configure [AaConfigure (Some 1) 128, AaConfigure (Some 1) 128]) = 2"
proof -
  have i: "Aardvark_init aardvark_constants (register_transport aardvark_constants 0) 0 [] =
     (Inr (fresh_session\<lparr>self_handle := Some 1\<rparr>), [AaOpenExt 0, AaConfigure (Some 1) 3])"
    by (simp add: Aardvark_init_def aardvark_constants_def register_transport_def
        zero_version_def raise_error_if_negative_def interface_configuration_def
        fresh_session_def Let_def to_version_str_def fmt_d_def dec.simps digit_char_def)
  have first: "enable_i2c_set aardvark_constants (register_transport aardvark_constants 0)
        (fresh_session\<lparr>self_handle := Some 1\<rparr>) True
        [AaOpenExt 0, AaConfigure (Some 1) 3] =
     (Inr (), [AaOpenExt 0, AaConfigure (Some 1) 3, AaConfigure (Some 1) 128])"
    by (simp add: enable_i2c_set_def interface_configuration_def raise_error_if_negative_def
        Let_def i2c_new_config_def register_transport_def aardvark_constants_def
        fresh_session_def)
  have second: "enable_i2c_set aardvark_constants (register_transport aardvark_constants 0)
        (fresh_session\<lparr>self_handle := Some 1\<rparr>) True
        [AaOpenExt 0, AaConfigure (Some 1) 3, AaConfigure (Some 1) 128] =
     (Inr (), [AaOpenExt 0, AaConfigure (Some 1) 3,
               AaConfigure (Some 1) 128, AaConfigure (Some 1) 128])"
    by (simp add: enable_i2c_set_def interface_configuration_def raise_error_if_negative_def
        Let_def i2c_new_config_def register_transport_def aardvark_constants_def
        fresh_session_def)
  have twice: "enable_i2c_set_twice aardvark_constants (register_transport aardvark_constants 0)
        (fresh_session\<lparr>self_handle := Some 1\<rparr>) True
        [AaOpenExt 0, AaConfigure (Some 1) 3] =
     (Inr (), [AaOpenExt 0, AaConfigure (Some 1) 3,
               AaConfigure (Some 1) 128, AaConfigure (Some 1) 128])"
    by (simp add: enable_i2c_set_twice_def first second)
  have n: "length (config_changes aardvark_constants
        [AaConfigure (Some 1) 128, AaConfigure (Some 1) 128]) = 0
   \<and> length (filter is_configure [AaConfigure (Some 1) 128, AaConfigure (Some 1) 128]) = 2"
    by (simp add: config_changes_def is_config_change_def is_configure_def
        aardvark_constants_def)
  show ?thesis
    using i twice n by blast
qed

text \<open>
  C8, amended. Let the first query report one of the four configurations, and let the
  query of the second assignment report the configuration that the first assignment
  asked for. Then \<^verbatim>\<open>enable_i2c = True\<close> twice in a row makes one query call for each
  assignment that runs and, between them, exactly one configuration-change call when
  I2C was disabled before, none when I2C was enabled before. The second assignment
  never makes a configuration-change call.
\<close>

theorem C8_enable_i2c_twice:
  assumes "config_constants_ok K"
    and "status env tr (AaConfigure (self_handle s) (CONFIG_QUERY K)) \<in> set (configs K)"
    and "status env (snd (enable_i2c_set K env s True tr))
           (AaConfigure (self_handle s) (CONFIG_QUERY K)) =
         i2c_new_config K True (status env tr (AaConfigure (self_handle s) (CONFIG_QUERY K)))"
  shows "snd (enable_i2c_set_twice K env s True tr) =
      (if i2c_enabled K (status env tr (AaConfigure (self_handle s) (CONFIG_QUERY K)))
       then tr @ [AaConfigure (self_handle s) (CONFIG_QUERY K),
                  AaConfigure (self_handle s) (CONFIG_QUERY K)]
       else if status env (tr @ [AaConfigure (self_handle s) (CONFIG_QUERY K)])
                 (AaConfigure (self_handle s) (i2c_new_config K True
                    (status env tr (AaConfigure (self_handle s) (CONFIG_QUERY K))))) < 0
       then tr @ [AaConfigure (self_handle s) (CONFIG_QUERY K),
                  AaConfigure (self_handle s) (i2c_new_config K True
                    (status env tr (AaConfigure (self_handle s) (CONFIG_QUERY K))))]
       else tr @ [AaConfigure (self_handle s) (CONFIG_QUERY K),
                  AaConfigure (self_handle s) (i2c_new_config K True
                    (status env tr (AaConfigure (self_handle s) (CONFIG_QUERY K)))),
                  AaConfigure (self_handle s) (CONFIG_QUERY K)])
    \<and> length (config_changes K (drop (length tr) (snd (enable_i2c_set_twice K env s True tr)))) =
      (if i2c_enabled K (status env tr (AaConfigure (self_handle s) (CONFIG_QUERY K)))
       then 0 else 1)
    \<and> config_changes K (drop (length (snd (enable_i2c_set K env s True tr)))
        (snd (enable_i2c_set_twice K env s True tr))) = []"
proof -
  define Q where "Q = AaConfigure (self_handle s) (CONFIG_QUERY K)"
  define c where "c = status env tr Q"
  define t where "t = i2c_new_config K True c"
  define r where "r = status env (tr @ [Q]) (AaConfigure (self_handle s) t)"
  note d = config_constants_distinct [OF assms(1)]
  have cin: "c \<in> set (configs K)"
    using assms(2) by (simp add: c_def Q_def)
  have nn: "0 \<le> c"
    using assms(1) cin by (rule configs_nonneg)
  have en: "i2c_enabled K t"
    using new_config_facets(4) [OF assms(1) cin, of True] by (simp add: t_def)
  have tin: "t \<in> set (configs K)"
    using cin d by (cases rule: config_cases) (simp_all add: t_def i2c_new_config_def configs_def)
  have nnt: "0 \<le> t"
    using assms(1) tin by (rule configs_nonneg)
  have same: "(t = c) = i2c_enabled K c"
    using cin d
    by (cases rule: config_cases) (simp_all add: t_def i2c_new_config_def i2c_enabled_def)
  have idem: "i2c_new_config K True t = t"
    using en d by (auto simp: i2c_enabled_def i2c_new_config_def)
  have tq: "t \<noteq> CONFIG_QUERY K"
    using tin d by (cases rule: config_cases) simp_all
  have first: "enable_i2c_set K env s True tr =
      (if t = c then (Inr (), tr @ [Q])
       else (if r < 0 then Inl (IOError r) else Inr (), tr @ [Q, AaConfigure (self_handle s) t]))"
    using enable_i2c_set_eq [of env tr s K True] nn
    by (simp add: Q_def c_def t_def r_def)
  have q2: "status env (snd (enable_i2c_set K env s True tr)) Q = t"
    using assms(3) by (simp add: Q_def c_def t_def)
  have second: "enable_i2c_set K env s True (snd (enable_i2c_set K env s True tr)) =
      (Inr (), snd (enable_i2c_set K env s True tr) @ [Q])"
    using enable_i2c_set_eq [of env "snd (enable_i2c_set K env s True tr)" s K True] q2 nnt idem
    by (simp add: Q_def)
  have twice: "enable_i2c_set_twice K env s True tr =
      (if t = c then (Inr (), tr @ [Q, Q])
       else if r < 0 then (Inl (IOError r), tr @ [Q, AaConfigure (self_handle s) t])
       else (Inr (), tr @ [Q, AaConfigure (self_handle s) t, Q]))"
  proof (cases "t = c")
    case True
    then show ?thesis
      using first second by (simp add: enable_i2c_set_twice_def)
  next
    case False
    then show ?thesis
      using first second by (simp add: enable_i2c_set_twice_def)
  qed
  have nq: "\<not> is_config_change K Q"
    by (simp add: is_config_change_def Q_def)
  have ch: "is_config_change K (AaConfigure (self_handle s) t)"
    using tq by (simp add: is_config_change_def)
  have A: "snd (enable_i2c_set_twice K env s True tr) =
      (if i2c_enabled K c then tr @ [Q, Q]
       else if r < 0 then tr @ [Q, AaConfigure (self_handle s) t]
       else tr @ [Q, AaConfigure (self_handle s) t, Q])"
    using twice same by simp
  have B: "length (config_changes K (drop (length tr) (snd (enable_i2c_set_twice K env s True tr))))
      = (if i2c_enabled K c then 0 else 1)"
    unfolding A using nq ch by (simp add: config_changes_def)
  have C: "config_changes K (drop (length (snd (enable_i2c_set K env s True tr)))
        (snd (enable_i2c_set_twice K env s True tr))) = []"
    unfolding A using first same nq by (simp add: config_changes_def)
  show ?thesis
    using A B C unfolding r_def t_def c_def Q_def by (intro conjI)
qed

theorem C8_enable_i2c_twice_witness:
  "config_constants_ok aardvark_constants
   \<and> \<not> i2c_enabled aardvark_constants 1
   \<and> snd (enable_i2c_set_twice aardvark_constants (register_transport aardvark_constants 1)
        fresh_session True []) =
       [AaConfigure (Some 0) 128, AaConfigure (Some 0) 3, AaConfigure (Some 0) 128]
   \<and> length (config_changes aardvark_constants
        (snd (enable_i2c_set_twice aardvark_constants (register_transport aardvark_constants 1)
           fresh_session True []))) = 1"
proof -
  have k: "CONFIG_QUERY aardvark_constants = 128"
    by (simp add: aardvark_constants_def)
  have h: "self_handle fresh_session = Some 0"
    by (simp add: fresh_session_def)
  have q: "status (register_transport aardvark_constants 1) [] (AaConfigure (Some 0) 128) = 1"
    by (simp add: register_transport_def aardvark_constants_def)
  have m: "status (register_transport aardvark_constants 1) []
      (AaConfigure (self_handle fresh_session) (CONFIG_QUERY aardvark_constants))
      \<in> set (configs aardvark_constants)"
    unfolding k h q by (simp add: configs_def aardvark_constants_def)
  have t: "i2c_new_config aardvark_constants True 1 = 3"
    by (simp add: i2c_new_config_def aardvark_constants_def)
  have e: "\<not> i2c_enabled aardvark_constants 1"
    by (simp add: i2c_enabled_def aardvark_constants_def)
  have first: "enable_i2c_set aardvark_constants (register_transport aardvark_constants 1)
      fresh_session True [] = (Inr (), [AaConfigure (Some 0) 128, AaConfigure (Some 0) 3])"
    by (simp add: enable_i2c_set_def interface_configuration_def raise_error_if_negative_def
        Let_def i2c_new_config_def register_transport_def aardvark_constants_def
        fresh_session_def)
  have honest: "status (register_transport aardvark_constants 1)
      (snd (enable_i2c_set aardvark_constants (register_transport aardvark_constants 1)
         fresh_session True []))
      (AaConfigure (self_handle fresh_session) (CONFIG_QUERY aardvark_constants)) =
      i2c_new_config aardvark_constants True
        (status (register_transport aardvark_constants 1) []
           (AaConfigure (self_handle fresh_session) (CONFIG_QUERY aardvark_constants)))"
    unfolding first k h q t by (simp add: register_transport_def aardvark_constants_def)
  have r: "\<not> status (register_transport aardvark_constants 1) [AaConfigure (Some 0) 128]
      (AaConfigure (Some 0) 3) < 0"
    by (simp add: register_transport_def aardvark_constants_def)
  show ?thesis
    using C8_enable_i2c_twice [OF aardvark_constants_ok m honest] aardvark_constants_ok e r
    unfolding k h q t by (simp add: config_changes_def is_config_change_def k)
qed

section \<open>Opening a device by its serial number\<close>

lemma find_devices_calls:
  "snd (find_devices K env tr) = tr @ [AaFindDevices]
   \<or> snd (find_devices K env tr) =
       tr @ [AaFindDevices, AaFindDevicesExt (nat (status env tr AaFindDevices))]"
  by (simp add: find_devices_def raise_error_if_negative_def Let_def)

lemma find_devices_opens: "filter is_open (snd (find_devices K env tr)) = filter is_open tr"
  using find_devices_calls [of K env tr] by (auto simp: is_open_def)

lemma Aardvark_init_success:
  assumes "Aardvark_init K env p tr = (Inr dev, tr2)"
  shows "self_handle dev = Some (status env tr (AaOpenExt p))"
    and "tr2 = tr @ [AaOpenExt p,
                     AaConfigure (Some (status env tr (AaOpenExt p))) (CONFIG_SPI_I2C K)]"
  using assms
  by (auto simp: Aardvark_init_def interface_configuration_def raise_error_if_negative_def
      Let_def split: if_splits)

lemma unique_id_str_second: "unique_id_str 1111222222 = ''1111-222222''"
proof -
  have q: "(1111222222::nat) div 1000000 = 1111"
    and r: "(1111222222::nat) mod 1000000 = 222222"
    by simp_all
  have a: "fmt_d 4 1111 = ''1111''"
    by (simp add: fmt_d_def dec.simps digit_char_def)
  have b: "fmt_d 6 222222 = ''222222''"
    by (simp add: fmt_d_def dec.simps digit_char_def)
  show ?thesis
    unfolding unique_id_str_def Let_def q r a b by simp
qed

lemma find_devices_two:
  "find_devices aardvark_constants (two_device_transport sw) tr =
     (Inr [\<lparr>port = 42, serial_number = ''1234-567890'', in_use = False\<rparr>,
           \<lparr>port = 4711, serial_number = ''1111-222222'', in_use = False\<rparr>],
      tr @ [AaFindDevices, AaFindDevicesExt 2])"
proof -
  have b: "(42::int) AND NOT 32768 = 42" "(4711::int) AND NOT 32768 = 4711"
    "(42::int) AND 32768 = 0" "(4711::int) AND 32768 = 0"
    by simp_all
  show ?thesis
    by (simp add: find_devices_def two_device_transport_def raise_error_if_negative_def Let_def
        aardvark_constants_def unique_id_str_example unique_id_str_second b)
qed

text \<open>
  C7. Opening by serial number, with an error code \<^verbatim>\<open>ERR_UNABLE_TO_OPEN\<close> that is
  negative. If the enumeration succeeds and no enumerated device has the serial
  number, \<^verbatim>\<open>open\<close> raises \<^verbatim>\<open>IOError(ERR_UNABLE_TO_OPEN)\<close> after the enumeration
  calls only: no open call is made. If the first device with the serial number is
  opened and its unique id, read back and formatted, differs from the serial number,
  \<^verbatim>\<open>open\<close> closes the session and raises \<^verbatim>\<open>IOError(ERR_UNABLE_TO_OPEN)\<close>; the calls
  after the enumeration are the open call, the configure call of the constructor, the
  unique-id call and the close call, so the port is opened once and nothing is tried
  again.
\<close>

theorem C7_open_by_serial_number:
  assumes "ERR_UNABLE_TO_OPEN K < 0"
  shows "(\<forall>ds tr1.
        find_devices K env tr = (Inr ds, tr1) \<and> (\<forall>d \<in> set ds. serial_number d \<noteq> sn) \<longrightarrow>
        open_dev K env p (Some sn) tr = (Inl (IOError (ERR_UNABLE_TO_OPEN K)), tr1)
        \<and> filter is_open tr1 = filter is_open tr)
    \<and> (\<forall>ds tr1 d dev tr2.
        find_devices K env tr = (Inr ds, tr1)
        \<and> find (\<lambda>d. serial_number d = sn) ds = Some d
        \<and> Aardvark_init K env (port d) tr1 = (Inr dev, tr2)
        \<and> unique_id_str (unique env tr2 (self_handle dev)) \<noteq> sn \<longrightarrow>
        open_dev K env p (Some sn) tr =
          (Inl (IOError (ERR_UNABLE_TO_OPEN K)),
           tr1 @ [AaOpenExt (port d), AaConfigure (self_handle dev) (CONFIG_SPI_I2C K),
                  AaUniqueId (self_handle dev), AaClose (self_handle dev)])
        \<and> filter is_open (snd (open_dev K env p (Some sn) tr)) =
            filter is_open tr @ [AaOpenExt (port d)])"
proof (intro conjI allI impI)
  fix ds tr1
  assume a: "find_devices K env tr = (Inr ds, tr1) \<and> (\<forall>d \<in> set ds. serial_number d \<noteq> sn)"
  then have none: "find (\<lambda>d. serial_number d = sn) ds = None"
    by (simp add: find_None_iff)
  have o: "open_dev K env p (Some sn) tr = open_serial_number K env sn tr"
    by (cases p) (simp_all add: open_dev_def)
  show "open_dev K env p (Some sn) tr = (Inl (IOError (ERR_UNABLE_TO_OPEN K)), tr1)"
    using a none assms
    by (simp add: o open_serial_number_def raise_error_if_negative_def)
  show "filter is_open tr1 = filter is_open tr"
    using a find_devices_opens [of K env tr] by simp
next
  fix ds tr1 d dev tr2
  assume a: "find_devices K env tr = (Inr ds, tr1)
        \<and> find (\<lambda>d. serial_number d = sn) ds = Some d
        \<and> Aardvark_init K env (port d) tr1 = (Inr dev, tr2)
        \<and> unique_id_str (unique env tr2 (self_handle dev)) \<noteq> sn"
  have o: "open_dev K env p (Some sn) tr = open_serial_number K env sn tr"
    by (cases p) (simp_all add: open_dev_def)
  have i: "Aardvark_init K env (port d) tr1 = (Inr dev, tr2)"
    using a by simp
  have tr2: "tr2 = tr1 @ [AaOpenExt (port d), AaConfigure (self_handle dev) (CONFIG_SPI_I2C K)]"
    using Aardvark_init_success [OF i] by simp
  have h: "self_handle dev = Some (status env tr1 (AaOpenExt (port d)))"
    using Aardvark_init_success [OF i] by simp
  have r: "open_serial_number K env sn tr =
      (Inl (IOError (ERR_UNABLE_TO_OPEN K)),
       tr2 @ [AaUniqueId (self_handle dev), AaClose (self_handle dev)])"
    using a assms h
    by (simp add: open_serial_number_def raise_error_if_negative_def
        Aardvark_unique_id_str_def unique_id_def close_def)
  show e: "open_dev K env p (Some sn) tr =
          (Inl (IOError (ERR_UNABLE_TO_OPEN K)),
           tr1 @ [AaOpenExt (port d), AaConfigure (self_handle dev) (CONFIG_SPI_I2C K),
                  AaUniqueId (self_handle dev), AaClose (self_handle dev)])"
    using r tr2 by (simp add: o)
  have f: "filter is_open tr1 = filter is_open tr"
    using a find_devices_opens [of K env tr] by simp
  show "filter is_open (snd (open_dev K env p (Some sn) tr)) =
            filter is_open tr @ [AaOpenExt (port d)]"
    unfolding e using f by (simp add: is_open_def)
qed

theorem C7_open_by_serial_number_witness:
  "ERR_UNABLE_TO_OPEN aardvark_constants < 0
   \<and> open_dev aardvark_constants (two_device_transport False) None (Some ''7777-888888'') [] =
       (Inl (IOError (- 7)), [AaFindDevices, AaFindDevicesExt 2])
   \<and> open_dev aardvark_constants (two_device_transport True) None (Some ''1234-567890'') [] =
       (Inl (IOError (- 7)),
        [AaFindDevices, AaFindDevicesExt 2, AaOpenExt 42, AaConfigure (Some 42) 3,
         AaUniqueId (Some 42), AaClose (Some 42)])"
proof -
  have neg: "ERR_UNABLE_TO_OPEN aardvark_constants < 0"
    by (simp add: aardvark_constants_def)
  have k: "ERR_UNABLE_TO_OPEN aardvark_constants = - 7"
    "CONFIG_SPI_I2C aardvark_constants = 3"
    by (simp_all add: aardvark_constants_def)
  have nomatch: "\<forall>d \<in> set [\<lparr>port = 42, serial_number = ''1234-567890'', in_use = False\<rparr>,
           \<lparr>port = 4711, serial_number = ''1111-222222'', in_use = False\<rparr>].
      serial_number d \<noteq> ''7777-888888''"
    by simp
  have match: "find (\<lambda>d. serial_number d = ''1234-567890'')
      [\<lparr>port = 42, serial_number = ''1234-567890'', in_use = False\<rparr>,
       \<lparr>port = 4711, serial_number = ''1111-222222'', in_use = False\<rparr>] =
      Some \<lparr>port = 42, serial_number = ''1234-567890'', in_use = False\<rparr>"
    by simp
  have i: "Aardvark_init aardvark_constants (two_device_transport True) 42
      [AaFindDevices, AaFindDevicesExt 2] =
      (Inr (fresh_session\<lparr>self_handle := Some 42\<rparr>),
       [AaFindDevices, AaFindDevicesExt 2, AaOpenExt 42, AaConfigure (Some 42) 3])"
    by (simp add: Aardvark_init_def aardvark_constants_def two_device_transport_def
        zero_version_def raise_error_if_negative_def interface_configuration_def
        fresh_session_def Let_def to_version_str_def fmt_d_def dec.simps digit_char_def)
  have u: "unique_id_str (unique (two_device_transport True)
      [AaFindDevices, AaFindDevicesExt 2, AaOpenExt 42, AaConfigure (Some 42) 3]
      (self_handle (fresh_session\<lparr>self_handle := Some 42\<rparr>))) \<noteq> ''1234-567890''"
    by (simp add: two_device_transport_def unique_id_str_second)
  have A: "open_dev aardvark_constants (two_device_transport False) None
      (Some ''7777-888888'') [] = (Inl (IOError (- 7)), [AaFindDevices, AaFindDevicesExt 2])"
    using C7_open_by_serial_number [OF neg, of "two_device_transport False" "[]"
        "''7777-888888''" None]
      find_devices_two [of False "[]"] nomatch k
    by simp
  have B: "open_dev aardvark_constants (two_device_transport True) None
      (Some ''1234-567890'') [] =
       (Inl (IOError (- 7)),
        [AaFindDevices, AaFindDevicesExt 2, AaOpenExt 42, AaConfigure (Some 42) 3,
         AaUniqueId (Some 42), AaClose (Some 42)])"
    using C7_open_by_serial_number [OF neg, of "two_device_transport True" "[]"
        "''1234-567890''" None]
      find_devices_two [of True "[]"] match i u k
    by simp
  show ?thesis
    using neg A B by blast
qed

end
